theory Spec2Isabelle
  imports Complex_Main "HOL-Library.Sublist" "HOL-Library.Multiset"
begin

section \<open>Market data refresh and watchlist cache (server/market-service.ts)\<close>

text \<open>
  The service is a class of asynchronous methods over two database tables and one upstream
  HTTP API. The embedding threads a \<open>world\<close> record through every method: the two tables,
  the clock, the counters behind generated ids and \<open>Math.random\<close>, and a trace of observable
  events (upstream requests, timer delays, console output). A method returns its outcome
  together with the world it leaves behind, \<open>(error + 'a) \<times> world\<close>: a rejected promise is
  \<open>Inl\<close>, and what was written before the throw stays written.

  JavaScript numbers are modelled as rationals (no rounding error, no NaN); a decimal column
  holds the number whose text the code writes. The clock moves when the code waits on a
  timer and between two calls of the service; a request or a query takes no time. The two
  requests that \<open>updateMarketData\<close> runs side by side are recorded one after the other.
  The database is modelled as far as the
  queries of this service go: rows in storage order, selection, update, delete, and
  insert-on-conflict resolved against the unique constraints that the schema declares.
  Column widths, decimal precision and foreign keys are outside the model, and so are
  connection failures.
\<close>

subsection \<open>Upstream payloads (interfaces FinnhubQuote, FinnhubCompanyProfile)\<close>

text \<open>Field names carry a prefix, since a record field is a global constant.\<close>

record FinnhubQuote =
  q_c :: rat
  q_d :: rat
  q_dp :: rat
  q_h :: rat
  q_l :: rat
  q_o :: rat
  q_pc :: rat
  q_t :: rat

record FinnhubCompanyProfile =
  p_country :: string
  p_currency :: string
  p_exchange :: string
  p_ipo :: string
  p_marketCapitalization :: rat
  p_name :: string
  p_phone :: string
  p_shareOutstanding :: rat
  p_ticker :: string
  p_weburl :: string
  p_logo :: string
  p_finnhubIndustry :: string

subsection \<open>The static exchange catalog\<close>

record Stock =
  st_symbol :: string
  st_name :: string
  st_sector :: string

definition mkStock :: "string \<Rightarrow> string \<Rightarrow> string \<Rightarrow> Stock" where
  "mkStock s n sec = \<lparr>st_symbol = s, st_name = n, st_sector = sec\<rparr>"

definition EXCHANGE_STOCKS :: "(string \<times> Stock list) list" where
  "EXCHANGE_STOCKS =
    [(''OL'',
       [mkStock ''EQNR.OL'' ''Equinor ASA'' ''Energy'',
        mkStock ''DNB.OL'' ''DNB Bank ASA'' ''Financial Services'',
        mkStock ''TEL.OL'' ''Telenor ASA'' ''Telecommunications'',
        mkStock ''MOWI.OL'' ''Mowi ASA'' ''Food & Beverages'',
        mkStock ''NHY.OL'' ''Norsk Hydro ASA'' ''Basic Materials'',
        mkStock ''YAR.OL'' ''Yara International ASA'' ''Basic Materials'',
        mkStock ''ORKLA.OL'' ''Orkla ASA'' ''Consumer Goods'',
        mkStock ''STL.OL'' ''Statoil ASA'' ''Energy'']),
     (''US'',
       [mkStock ''AAPL'' ''Apple Inc.'' ''Technology'',
        mkStock ''MSFT'' ''Microsoft Corporation'' ''Technology'',
        mkStock ''GOOGL'' ''Alphabet Inc.'' ''Technology'',
        mkStock ''AMZN'' ''Amazon.com Inc.'' ''Consumer Discretionary'',
        mkStock ''TSLA'' ''Tesla Inc.'' ''Consumer Discretionary'',
        mkStock ''META'' ''Meta Platforms Inc.'' ''Technology'',
        mkStock ''JPM'' ''JPMorgan Chase & Co.'' ''Financial Services'',
        mkStock ''JNJ'' ''Johnson & Johnson'' ''Healthcare'']),
     (''L'',
       [mkStock ''SHEL.L'' ''Shell plc'' ''Energy'',
        mkStock ''AZN.L'' ''AstraZeneca PLC'' ''Healthcare'',
        mkStock ''ULVR.L'' ''Unilever PLC'' ''Consumer Goods'',
        mkStock ''LSEG.L'' ''London Stock Exchange Group'' ''Financial Services'',
        mkStock ''RIO.L'' ''Rio Tinto Group'' ''Basic Materials'',
        mkStock ''BP.L'' ''BP p.l.c.'' ''Energy'']),
     (''DE'',
       [mkStock ''SAP.DE'' ''SAP SE'' ''Technology'',
        mkStock ''ASME.DE'' ''ASML Holding N.V.'' ''Technology'',
        mkStock ''SIE.DE'' ''Siemens AG'' ''Industrials'',
        mkStock ''ALV.DE'' ''Allianz SE'' ''Financial Services'',
        mkStock ''DTE.DE'' ''Deutsche Telekom AG'' ''Telecommunications'',
        mkStock ''BAS.DE'' ''BASF SE'' ''Basic Materials'']),
     (''HK'',
       [mkStock ''0700.HK'' ''Tencent Holdings Ltd.'' ''Technology'',
        mkStock ''9988.HK'' ''Alibaba Group Holding Ltd.'' ''Technology'',
        mkStock ''0005.HK'' ''HSBC Holdings plc'' ''Financial Services'',
        mkStock ''1299.HK'' ''AIA Group Ltd.'' ''Financial Services'',
        mkStock ''2318.HK'' ''Ping An Insurance'' ''Financial Services'',
        mkStock ''3690.HK'' ''Meituan'' ''Consumer Discretionary'']),
     (''T'',
       [mkStock ''7203.T'' ''Toyota Motor Corp'' ''Consumer Discretionary'',
        mkStock ''6758.T'' ''Sony Group Corp'' ''Technology'',
        mkStock ''9984.T'' ''SoftBank Group Corp'' ''Technology'',
        mkStock ''8306.T'' ''Mitsubishi UFJ Financial Group'' ''Financial Services'',
        mkStock ''6861.T'' ''Keyence Corp'' ''Technology'',
        mkStock ''4063.T'' ''Shin-Etsu Chemical Co'' ''Basic Materials'']),
     (''ST'',
       [mkStock ''VOLV-B.ST'' ''Volvo AB'' ''Industrials'',
        mkStock ''ERICB.ST'' ''Telefonaktiebolaget LM Ericsson'' ''Technology'',
        mkStock ''ATLAS-B.ST'' ''Atlas Copco AB'' ''Industrials'',
        mkStock ''HEXA-B.ST'' ''Hexagon AB'' ''Technology'',
        mkStock ''SSAB-A.ST'' ''SSAB AB'' ''Basic Materials'',
        mkStock ''SKF-B.ST'' ''SKF AB'' ''Industrials''])]"

text \<open>
  \<open>EXCHANGE_STOCKS[exchange]\<close> is a property read on an object literal. A key of the literal
  gives its list; any other string gives \<open>undefined\<close>, except the names every object
  inherits from \<open>Object.prototype\<close>, which give a function (or, for \<open>__proto__\<close>, the
  prototype object): a truthy value that is not iterable and has no \<open>map\<close> method.
\<close>

datatype 'a js_property = Own 'a | Inherited | Undefined

definition objectPrototypeKeys :: "string list" where
  "objectPrototypeKeys =
    [''constructor'', ''__proto__'', ''hasOwnProperty'', ''isPrototypeOf'',
     ''propertyIsEnumerable'', ''toString'', ''toLocaleString'', ''valueOf'',
     ''__defineGetter__'', ''__defineSetter__'', ''__lookupGetter__'', ''__lookupSetter__'']"

definition EXCHANGE_STOCKS_get :: "string \<Rightarrow> Stock list js_property" where
  "EXCHANGE_STOCKS_get exchange =
     (case map_of EXCHANGE_STOCKS exchange of
        Some stocks \<Rightarrow> Own stocks
      | None \<Rightarrow> if exchange \<in> set objectPrototypeKeys then Inherited else Undefined)"

definition NORWEGIAN_STOCKS :: "Stock list" where
  "NORWEGIAN_STOCKS = (case EXCHANGE_STOCKS_get ''OL'' of Own stocks \<Rightarrow> stocks | _ \<Rightarrow> [])"

subsection \<open>Tables (shared schema: market_data, watched_assets)\<close>

text \<open>A nullable column is an \<open>option\<close>; timestamps are milliseconds since the epoch.\<close>

record MarketDataRow =
  md_id :: nat
  md_symbol :: string
  md_name :: "string option"
  md_exchange :: "string option"
  md_price :: rat
  md_change :: "rat option"
  md_changePercent :: "rat option"
  md_volume :: "string option"
  md_marketCap :: "rat option"
  md_previousClose :: "rat option"
  md_dayHigh :: "rat option"
  md_dayLow :: "rat option"
  md_currency :: "string option"
  md_sector :: "string option"
  md_lastUpdated :: "int option"
  md_sparklineData :: "rat list option"

record WatchedAssetRow =
  wa_id :: nat
  wa_userId :: "string option"
  wa_symbol :: string
  wa_name :: "string option"
  wa_exchange :: "string option"
  wa_assetType :: "string option"
  wa_region :: "string option"
  wa_isFavorite :: "bool option"
  wa_alertPrice :: "rat option"
  wa_alertType :: "string option"
  wa_createdAt :: "int option"
  wa_updatedAt :: "int option"

text \<open>
  The unique constraints of the schema, as column sets. \<open>market_data\<close> has its primary key
  and \<open>.unique()\<close> on \<open>symbol\<close>; \<open>watched_assets\<close> declares its primary key and nothing else.
\<close>

definition marketData_uniques :: "string list list" where
  "marketData_uniques = [[''id''], [''symbol'']]"

definition watchedAssets_uniques :: "string list list" where
  "watchedAssets_uniques = [[''id'']]"

subsection \<open>Errors, events, the world\<close>

datatype error =
    Error string
  | TypeError string
  | DatabaseError string

datatype event =
    Fetch string
  | Sleep nat
  | ConsoleError string
  | ConsoleWarn string

record world =
  marketData :: "MarketDataRow list"
  watchedAssets :: "WatchedAssetRow list"
  now :: int
  nextId :: nat
  randomDraws :: nat
  trace :: "event list"

text \<open>
  What lies outside the process: the answer of the quote provider to a request made at a
  given time, and the sequence of values \<open>Math.random\<close> returns.
\<close>

datatype 'a http_result =
    NetworkFailure string
  | NotOk string
  | ErrorPayload string
  | Json 'a

record env =
  quoteAt :: "int \<Rightarrow> string \<Rightarrow> FinnhubQuote http_result"
  profileAt :: "int \<Rightarrow> string \<Rightarrow> FinnhubCompanyProfile http_result"
  random :: "nat \<Rightarrow> rat"

type_synonym 'a promise = "world \<Rightarrow> (error + 'a) \<times> world"

definition emit :: "event \<Rightarrow> world \<Rightarrow> world" where
  "emit e w = w\<lparr>trace := trace w @ [e]\<rparr>"

definition setTimeout :: "nat \<Rightarrow> world \<Rightarrow> world" where
  "setTimeout ms w = emit (Sleep ms) (w\<lparr>now := now w + int ms\<rparr>)"

subsection \<open>Database primitives\<close>

text \<open>
  \<open>INSERT ... ON CONFLICT (target) DO UPDATE SET ...\<close>. The conflict target has to name the
  columns of a unique constraint of the table; PostgreSQL rejects the statement otherwise,
  whatever the table holds. With a matching constraint, a row that agrees with the new one
  on the target columns is updated in place, and the new row is stored when there is none.
\<close>

definition sameColumns :: "string list \<Rightarrow> string list \<Rightarrow> bool" where
  "sameColumns a b = (list_all (\<lambda>x. x \<in> set b) a \<and> list_all (\<lambda>x. x \<in> set a) b)"

definition onConflictDoUpdate ::
  "string list list \<Rightarrow> string list \<Rightarrow> ('r \<Rightarrow> bool) \<Rightarrow> ('r \<Rightarrow> 'r) \<Rightarrow> 'r \<Rightarrow> 'r list \<Rightarrow> error + 'r list"
where
  "onConflictDoUpdate uniques target conflicts setf new rows =
     (if \<not> list_ex (sameColumns target) uniques
      then Inl (DatabaseError
        ''there is no unique or exclusion constraint matching the ON CONFLICT specification'')
      else if list_ex conflicts rows
      then Inr (map (\<lambda>r. if conflicts r then setf r else r) rows)
      else Inr (rows @ [new]))"

text \<open>\<open>ORDER BY\<close>: a stable insertion sort under the comparison the query asks for.\<close>

fun insertBy :: "('a \<Rightarrow> 'a \<Rightarrow> bool) \<Rightarrow> 'a \<Rightarrow> 'a list \<Rightarrow> 'a list" where
  "insertBy le x [] = [x]"
| "insertBy le x (y # ys) = (if le x y then x # y # ys else y # insertBy le x ys)"

definition orderBy :: "('a \<Rightarrow> 'a \<Rightarrow> bool) \<Rightarrow> 'a list \<Rightarrow> 'a list" where
  "orderBy le xs = foldr (insertBy le) xs []"

text \<open>\<open>desc(lastUpdated)\<close>: latest first; PostgreSQL puts NULL first in a descending order.\<close>

definition descLastUpdated :: "MarketDataRow \<Rightarrow> MarketDataRow \<Rightarrow> bool" where
  "descLastUpdated a b =
     (case md_lastUpdated a of
        None \<Rightarrow> True
      | Some x \<Rightarrow> (case md_lastUpdated b of None \<Rightarrow> False | Some y \<Rightarrow> y \<le> x))"

text \<open>
  \<open>desc(isFavorite), createdAt\<close>: NULL, then true, then false; within one flag the earlier
  creation first, NULL last.
\<close>

definition favoriteRank :: "bool option \<Rightarrow> nat" where
  "favoriteRank f = (case f of None \<Rightarrow> 0 | Some True \<Rightarrow> 1 | Some False \<Rightarrow> 2)"

definition ascCreatedAt :: "int option \<Rightarrow> int option \<Rightarrow> bool" where
  "ascCreatedAt a b =
     (case b of None \<Rightarrow> True | Some y \<Rightarrow> (case a of None \<Rightarrow> False | Some x \<Rightarrow> x \<le> y))"

definition watchOrder ::
  "WatchedAssetRow \<times> MarketDataRow option \<Rightarrow> WatchedAssetRow \<times> MarketDataRow option \<Rightarrow> bool"
where
  "watchOrder a b =
     (favoriteRank (wa_isFavorite (fst a)) < favoriteRank (wa_isFavorite (fst b))
      \<or> (favoriteRank (wa_isFavorite (fst a)) = favoriteRank (wa_isFavorite (fst b))
         \<and> ascCreatedAt (wa_createdAt (fst a)) (wa_createdAt (fst b))))"

text \<open>\<open>LEFT JOIN market_data ON watched_assets.symbol = market_data.symbol\<close>.\<close>

definition leftJoin ::
  "WatchedAssetRow list \<Rightarrow> MarketDataRow list \<Rightarrow> (WatchedAssetRow \<times> MarketDataRow option) list"
where
  "leftJoin was mds =
     concat (map (\<lambda>a.
       (case filter (\<lambda>m. md_symbol m = wa_symbol a) mds of
          [] \<Rightarrow> [(a, None)]
        | ms \<Rightarrow> map (\<lambda>m. (a, Some m)) ms)) was)"

subsection \<open>JavaScript string helpers\<close>

text \<open>\<open>s.includes(p)\<close>: \<open>p\<close> occurs somewhere in \<open>s\<close>.\<close>

fun str_includes :: "string \<Rightarrow> string \<Rightarrow> bool" where
  "str_includes [] p = (p = [])"
| "str_includes (x # xs) p = (prefix p (x # xs) \<or> str_includes xs p)"

text \<open>\<open>s.split('.')\<close>: the pieces between the separators, at least one.\<close>

fun str_split :: "char \<Rightarrow> string \<Rightarrow> string list" where
  "str_split sep [] = [[]]"
| "str_split sep (x # xs) =
     (if x = sep then [] # str_split sep xs
      else (case str_split sep xs of [] \<Rightarrow> [[x]] | p # ps \<Rightarrow> (x # p) # ps))"

text \<open>\<open>xs[i]\<close>, undefined beyond the end.\<close>

definition elemAt :: "'a list \<Rightarrow> nat \<Rightarrow> 'a option" where
  "elemAt xs i = (if i < length xs then Some (xs ! i) else None)"

text \<open>\<open>a || b\<close> on a possibly undefined string: the empty string is falsy as well.\<close>

definition orElse :: "string option \<Rightarrow> string \<Rightarrow> string" where
  "orElse a b = (case a of None \<Rightarrow> b | Some s \<Rightarrow> if s = [] then b else s)"

subsection \<open>The upstream client\<close>

text \<open>
  The body of the \<open>try\<close> in \<open>fetchFromFinnhub\<close>: a rejected \<open>fetch\<close>, a status outside 2xx and
  an \<open>error\<close> member in the payload each throw. The \<open>catch\<close> writes a line and throws again.
\<close>

definition finnhubResponse :: "'a http_result \<Rightarrow> error + 'a" where
  "finnhubResponse r =
     (case r of
        NetworkFailure m \<Rightarrow> Inl (Error m)
      | NotOk status \<Rightarrow> Inl (Error (''Finnhub API error: '' @ status))
      | ErrorPayload m \<Rightarrow> Inl (Error (''Finnhub API error: '' @ m))
      | Json data \<Rightarrow> Inr data)"

definition fetchFromFinnhub :: "(int \<Rightarrow> 'a http_result) \<Rightarrow> string \<Rightarrow> 'a promise" where
  "fetchFromFinnhub respond endpoint w =
     (let w1 = emit (Fetch endpoint) w
      in case finnhubResponse (respond (now w)) of
           Inr data \<Rightarrow> (Inr data, w1)
         | Inl err \<Rightarrow>
             (Inl err, emit (ConsoleError (''Failed to fetch from Finnhub: '' @ endpoint)) w1))"

definition quoteEndpoint :: "string \<Rightarrow> string" where
  "quoteEndpoint symbol = ''/quote?symbol='' @ symbol"

definition profileEndpoint :: "string \<Rightarrow> string" where
  "profileEndpoint symbol = ''/stock/profile2?symbol='' @ symbol"

definition getQuote :: "env \<Rightarrow> string \<Rightarrow> FinnhubQuote promise" where
  "getQuote e symbol = fetchFromFinnhub (\<lambda>t. quoteAt e t symbol) (quoteEndpoint symbol)"

definition getCompanyProfile :: "env \<Rightarrow> string \<Rightarrow> FinnhubCompanyProfile promise" where
  "getCompanyProfile e symbol =
     fetchFromFinnhub (\<lambda>t. profileAt e t symbol) (profileEndpoint symbol)"

text \<open>
  \<open>Math.round(x)\<close> is the nearest integer, a tie going up. Seven points, one draw of
  \<open>Math.random\<close> each.
\<close>

definition mathRound :: "rat \<Rightarrow> rat" where
  "mathRound x = of_int \<lfloor>x + 1 / 2\<rfloor>"

definition generateSparklineData :: "env \<Rightarrow> rat \<Rightarrow> rat \<Rightarrow> world \<Rightarrow> rat list \<times> world" where
  "generateSparklineData e currentPrice change w =
     (let basePrice = currentPrice - change;
          points = map (\<lambda>i.
            let variation = (random e (randomDraws w + i) - 1 / 2) * (currentPrice * (5 / 100));
                price = basePrice + change * (of_nat i / 6) + variation
            in mathRound (price * 100) / 100) [0..<7]
      in (points, w\<lparr>randomDraws := randomDraws w + 7\<rparr>))"

subsection \<open>updateMarketData\<close>

text \<open>
  Both requests are issued before either answer is awaited; a failed profile request is
  turned into \<open>null\<close>, a failed quote request rejects the whole update. The trace records
  the requests in the order the array literal issues them, each followed by its own failure
  line.
\<close>

definition stockInfo :: "string \<Rightarrow> Stock option" where
  "stockInfo symbol = find (\<lambda>stock. st_symbol stock = symbol) (concat (map snd EXCHANGE_STOCKS))"

definition insertedRow ::
  "string \<Rightarrow> FinnhubQuote \<Rightarrow> FinnhubCompanyProfile option \<Rightarrow> rat list \<Rightarrow> world \<Rightarrow> MarketDataRow"
where
  "insertedRow symbol quote profile sparklineData w =
     \<lparr>md_id = nextId w,
      md_symbol = symbol,
      md_name = Some (orElse (map_option p_name profile)
                        (orElse (map_option st_name (stockInfo symbol)) symbol)),
      md_exchange = Some (orElse (map_option p_exchange profile)
                            (orElse (elemAt (str_split CHR ''.'' symbol) 1) ''US'')),
      md_price = q_c quote,
      md_change = Some (q_d quote),
      md_changePercent = Some (q_dp quote),
      md_volume = Some ''N/A'',
      md_marketCap =
        (case profile of
           None \<Rightarrow> None
         | Some p \<Rightarrow> if p_marketCapitalization p \<noteq> 0
                     then Some (p_marketCapitalization p * 1000000) else None),
      md_previousClose = Some (q_pc quote),
      md_dayHigh = Some (q_h quote),
      md_dayLow = Some (q_l quote),
      md_currency = Some (orElse (map_option p_currency profile)
                            (if str_includes symbol ''.OL'' then ''NOK'' else ''USD'')),
      md_sector = Some (orElse (map_option st_sector (stockInfo symbol))
                          (orElse (map_option p_finnhubIndustry profile) ''Unknown'')),
      md_lastUpdated = Some (now w),
      md_sparklineData = Some sparklineData\<rparr>"

definition conflictSet :: "FinnhubQuote \<Rightarrow> rat list \<Rightarrow> world \<Rightarrow> MarketDataRow \<Rightarrow> MarketDataRow" where
  "conflictSet quote sparklineData w r =
     r\<lparr>md_price := q_c quote,
       md_change := Some (q_d quote),
       md_changePercent := Some (q_dp quote),
       md_previousClose := Some (q_pc quote),
       md_dayHigh := Some (q_h quote),
       md_dayLow := Some (q_l quote),
       md_sparklineData := Some sparklineData,
       md_lastUpdated := Some (now w)\<rparr>"

definition updateMarketData :: "env \<Rightarrow> string \<Rightarrow> unit promise" where
  "updateMarketData e symbol w =
     (let (quoteR, w1) = getQuote e symbol w;
          (profileR, w2) = getCompanyProfile e symbol w1;
          profile = (case profileR of Inl _ \<Rightarrow> None | Inr p \<Rightarrow> Some p);
          rethrow = (\<lambda>err w'.
            (Inl err, emit (ConsoleError (''Failed to update market data for '' @ symbol @ '':'')) w'))
      in case quoteR of
           Inl err \<Rightarrow> rethrow err w2
         | Inr quote \<Rightarrow>
             (let (sparklineData, w3) = generateSparklineData e (q_c quote) (q_d quote) w2
              in case onConflictDoUpdate marketData_uniques [''symbol'']
                        (\<lambda>r. md_symbol r = symbol)
                        (conflictSet quote sparklineData w3)
                        (insertedRow symbol quote profile sparklineData w3)
                        (marketData w3) of
                   Inl err \<Rightarrow> rethrow err w3
                 | Inr rows \<Rightarrow> (Inr (), w3\<lparr>marketData := rows, nextId := Suc (nextId w3)\<rparr>)))"

subsection \<open>Batch initialisation and the read path\<close>

text \<open>
  The body of each loop is a \<open>try\<close>/\<open>catch\<close>: the delay follows a successful update inside
  the \<open>try\<close>, the \<open>catch\<close> writes one line and the loop goes on.
\<close>

definition initializeNorwegianStock :: "env \<Rightarrow> Stock \<Rightarrow> world \<Rightarrow> world" where
  "initializeNorwegianStock e stock w =
     (case updateMarketData e (st_symbol stock) w of
        (Inr _, w1) \<Rightarrow> setTimeout 1100 w1
      | (Inl _, w1) \<Rightarrow>
          emit (ConsoleError (''Failed to initialize '' @ st_symbol stock @ '':'')) w1)"

fun forEachStock :: "(Stock \<Rightarrow> world \<Rightarrow> world) \<Rightarrow> Stock list \<Rightarrow> world \<Rightarrow> world" where
  "forEachStock body [] w = w"
| "forEachStock body (stock # rest) w = forEachStock body rest (body stock w)"

definition initializeNorwegianStocks :: "env \<Rightarrow> unit promise" where
  "initializeNorwegianStocks e w =
     (Inr (), forEachStock (initializeNorwegianStock e) NORWEGIAN_STOCKS w)"

definition getMarketDataFromDB :: "string list option \<Rightarrow> MarketDataRow list promise" where
  "getMarketDataFromDB symbols w =
     (case symbols of
        Some (s # ss) \<Rightarrow> (Inr (filter (\<lambda>r. md_symbol r \<in> set (s # ss)) (marketData w)), w)
      | _ \<Rightarrow> (Inr (orderBy descLastUpdated (marketData w)), w))"

text \<open>
  \<open>new Date(x).getTime()\<close> on the stored timestamp; \<open>new Date(null)\<close> is the epoch.
\<close>

definition shouldUpdate :: "MarketDataRow option \<Rightarrow> int \<Rightarrow> bool" where
  "shouldUpdate existing t =
     (case existing of
        None \<Rightarrow> True
      | Some r \<Rightarrow> t - (case md_lastUpdated r of None \<Rightarrow> 0 | Some u \<Rightarrow> u) > 5 * 60 * 1000)"

definition initializeExchangeStock :: "env \<Rightarrow> string \<Rightarrow> Stock \<Rightarrow> world \<Rightarrow> world" where
  "initializeExchangeStock e exchange stock w =
     (let existingData = find (\<lambda>r. md_symbol r = st_symbol stock) (marketData w)
      in if shouldUpdate existingData (now w)
         then (case updateMarketData e (st_symbol stock) w of
                 (Inr _, w1) \<Rightarrow> setTimeout 1100 w1
               | (Inl _, w1) \<Rightarrow>
                   emit (ConsoleError (''Failed to initialize '' @ st_symbol stock
                                        @ '' on '' @ exchange @ '':'')) w1)
         else w)"

definition initializeExchangeData :: "env \<Rightarrow> string \<Rightarrow> unit promise" where
  "initializeExchangeData e exchange w =
     (case EXCHANGE_STOCKS_get exchange of
        Undefined \<Rightarrow> (Inr (), w)
      | Inherited \<Rightarrow> (Inl (TypeError ''exchangeStocks is not iterable''), w)
      | Own exchangeStocks \<Rightarrow>
          (Inr (), forEachStock (initializeExchangeStock e exchange) exchangeStocks w))"

definition getMarketDataByExchange :: "env \<Rightarrow> string \<Rightarrow> MarketDataRow list promise" where
  "getMarketDataByExchange e exchange w =
     (case EXCHANGE_STOCKS_get exchange of
        Undefined \<Rightarrow> (Inl (Error (''Unsupported exchange: '' @ exchange)), w)
      | Inherited \<Rightarrow>
          (case initializeExchangeData e exchange w of
             (Inl err, w1) \<Rightarrow> (Inl err, w1)
           | (Inr _, w1) \<Rightarrow> (Inl (TypeError ''exchangeStocks.map is not a function''), w1))
      | Own exchangeStocks \<Rightarrow>
          (case initializeExchangeData e exchange w of
             (Inl err, w1) \<Rightarrow> (Inl err, w1)
           | (Inr _, w1) \<Rightarrow> getMarketDataFromDB (Some (map st_symbol exchangeStocks)) w1))"

subsection \<open>The watchlist\<close>

record ExtraData =
  x_exchange :: "string option"
  x_name :: "string option"
  x_assetType :: "string option"
  x_region :: "string option"

definition getUserWatchedAssets ::
  "string \<Rightarrow> (WatchedAssetRow \<times> MarketDataRow option) list promise"
where
  "getUserWatchedAssets userId w =
     (Inr (orderBy watchOrder
             (leftJoin (filter (\<lambda>a. wa_userId a = Some userId) (watchedAssets w))
                       (marketData w))), w)"

definition watchKey :: "string \<Rightarrow> string \<Rightarrow> WatchedAssetRow \<Rightarrow> bool" where
  "watchKey userId symbol r = (wa_userId r = Some userId \<and> wa_symbol r = symbol)"

text \<open>
  \<open>isFavorite = false\<close> is a default parameter: \<open>None\<close> is the argument left out.
  A refresh that fails is caught with a warning, and the insert goes ahead.
\<close>

definition addWatchedAsset ::
  "env \<Rightarrow> string \<Rightarrow> string \<Rightarrow> bool option \<Rightarrow> ExtraData option \<Rightarrow> unit promise"
where
  "addWatchedAsset e userId symbol isFavoriteArg extraData w =
     (let isFavorite = (case isFavoriteArg of None \<Rightarrow> False | Some b \<Rightarrow> b);
          w1 = (case updateMarketData e symbol w of
                  (Inr _, w') \<Rightarrow> w'
                | (Inl _, w') \<Rightarrow>
                    emit (ConsoleWarn (''Could not fetch market data for '' @ symbol
                                        @ '', adding anyway'')) w');
          new = \<lparr>wa_id = nextId w1,
                 wa_userId = Some userId,
                 wa_symbol = symbol,
                 wa_name = Option.bind extraData x_name,
                 wa_exchange = Option.bind extraData x_exchange,
                 wa_assetType = Some (orElse (Option.bind extraData x_assetType) ''stock''),
                 wa_region = Some (orElse (Option.bind extraData x_region) ''Global''),
                 wa_isFavorite = Some isFavorite,
                 wa_alertPrice = None,
                 wa_alertType = None,
                 wa_createdAt = Some (now w1),
                 wa_updatedAt = Some (now w1)\<rparr>
      in case onConflictDoUpdate watchedAssets_uniques [''user_id'', ''symbol'']
                (watchKey userId symbol)
                (\<lambda>r. r\<lparr>wa_isFavorite := Some isFavorite, wa_updatedAt := Some (now w1)\<rparr>)
                new (watchedAssets w1) of
           Inl err \<Rightarrow> (Inl err, w1)
         | Inr rows \<Rightarrow> (Inr (), w1\<lparr>watchedAssets := rows, nextId := Suc (nextId w1)\<rparr>))"

text \<open>\<open>!x\<close> on a nullable boolean: \<open>!null\<close> is \<open>true\<close>.\<close>

definition jsNot :: "bool option \<Rightarrow> bool" where
  "jsNot b = (case b of None \<Rightarrow> True | Some v \<Rightarrow> \<not> v)"

definition toggleFavorite :: "env \<Rightarrow> string \<Rightarrow> string \<Rightarrow> unit promise" where
  "toggleFavorite e userId symbol w =
     (case find (watchKey userId symbol) (watchedAssets w) of
        None \<Rightarrow> addWatchedAsset e userId symbol (Some True) None w
      | Some existing \<Rightarrow>
          (Inr (), w\<lparr>watchedAssets :=
             map (\<lambda>r. if watchKey userId symbol r
                      then r\<lparr>wa_isFavorite := Some (jsNot (wa_isFavorite existing)),
                             wa_updatedAt := Some (now w)\<rparr>
                      else r) (watchedAssets w)\<rparr>))"

definition removeWatchedAsset :: "string \<Rightarrow> string \<Rightarrow> unit promise" where
  "removeWatchedAsset userId symbol w =
     (Inr (), w\<lparr>watchedAssets := filter (\<lambda>r. \<not> watchKey userId symbol r) (watchedAssets w)\<rparr>)"

subsection \<open>Reading results and traces\<close>

text \<open>The rows a query resolved with; no rows when it rejected.\<close>

definition rowsOf :: "(error + 'a list) \<times> world \<Rightarrow> 'a list" where
  "rowsOf r = (case fst r of Inr xs \<Rightarrow> xs | Inl _ \<Rightarrow> [])"

text \<open>The events a run added: the trace of the world after it, less the trace before.\<close>

definition since :: "world \<Rightarrow> world \<Rightarrow> event list" where
  "since w w' = drop (length (trace w)) (trace w')"

definition quoteRequests :: "event list \<Rightarrow> string list" where
  "quoteRequests evs =
     concat (map (\<lambda>ev. case ev of Fetch ep \<Rightarrow> if prefix ''/quote?'' ep then [ep] else []
                               | _ \<Rightarrow> []) evs)"

definition delays :: "event list \<Rightarrow> nat list" where
  "delays evs = concat (map (\<lambda>ev. case ev of Sleep ms \<Rightarrow> [ms] | _ \<Rightarrow> []) evs)"

definition quoteCalls :: "string \<Rightarrow> world \<Rightarrow> nat" where
  "quoteCalls symbol w = count_list (quoteRequests (trace w)) (quoteEndpoint symbol)"

text \<open>
  A trace is spaced when every quote request but the first comes after a delay of 1100 ms
  that follows the quote request before it.
\<close>

fun spacedFrom :: "bool \<Rightarrow> event list \<Rightarrow> bool" where
  "spacedFrom rested [] = True"
| "spacedFrom rested (Sleep ms # evs) = spacedFrom (rested \<or> ms = 1100) evs"
| "spacedFrom rested (Fetch ep # evs) =
     (if prefix ''/quote?'' ep then rested \<and> spacedFrom False evs else spacedFrom rested evs)"
| "spacedFrom rested (ConsoleError m # evs) = spacedFrom rested evs"
| "spacedFrom rested (ConsoleWarn m # evs) = spacedFrom rested evs"

definition spaced :: "event list \<Rightarrow> bool" where
  "spaced evs = spacedFrom True evs"

text \<open>Time passing between two requests to the service.\<close>

definition later :: "nat \<Rightarrow> world \<Rightarrow> world" where
  "later ms w = w\<lparr>now := now w + int ms\<rparr>"

text \<open>What one call of \<open>updateMarketData\<close> at time \<open>t\<close> adds to the trace and to the table.\<close>

definition fetchTrace :: "'a http_result \<Rightarrow> string \<Rightarrow> event list" where
  "fetchTrace r endpoint =
     Fetch endpoint #
       (case finnhubResponse r of
          Inl _ \<Rightarrow> [ConsoleError (''Failed to fetch from Finnhub: '' @ endpoint)]
        | Inr _ \<Rightarrow> [])"

definition updateTrace :: "env \<Rightarrow> string \<Rightarrow> int \<Rightarrow> event list" where
  "updateTrace e symbol t =
     fetchTrace (quoteAt e t symbol) (quoteEndpoint symbol)
     @ fetchTrace (profileAt e t symbol) (profileEndpoint symbol)
     @ (case finnhubResponse (quoteAt e t symbol) of
          Inl _ \<Rightarrow> [ConsoleError (''Failed to update market data for '' @ symbol @ '':'')]
        | Inr _ \<Rightarrow> [])"

definition profileOf :: "env \<Rightarrow> string \<Rightarrow> int \<Rightarrow> FinnhubCompanyProfile option" where
  "profileOf e symbol t =
     (case finnhubResponse (profileAt e t symbol) of Inl _ \<Rightarrow> None | Inr p \<Rightarrow> Some p)"

definition sparklineOf :: "env \<Rightarrow> FinnhubQuote \<Rightarrow> world \<Rightarrow> rat list" where
  "sparklineOf e quote w = fst (generateSparklineData e (q_c quote) (q_d quote) w)"

definition upsertedRows :: "env \<Rightarrow> string \<Rightarrow> FinnhubQuote \<Rightarrow> world \<Rightarrow> MarketDataRow list" where
  "upsertedRows e symbol quote w =
     (if list_ex (\<lambda>r. md_symbol r = symbol) (marketData w)
      then map (\<lambda>r. if md_symbol r = symbol
                     then conflictSet quote (sparklineOf e quote w) w r else r) (marketData w)
      else marketData w
           @ [insertedRow symbol quote (profileOf e symbol (now w)) (sparklineOf e quote w) w])"

subsection \<open>Concrete worlds and upstreams\<close>

definition emptyWorld :: world where
  "emptyWorld =
     \<lparr>marketData = [], watchedAssets = [], now = 1000000, nextId = 0, randomDraws = 0,
      trace = []\<rparr>"

definition sampleQuote :: FinnhubQuote where
  "sampleQuote =
     \<lparr>q_c = 100, q_d = 2, q_dp = 2, q_h = 101, q_l = 97, q_o = 98, q_pc = 98, q_t = 1000\<rparr>"

definition sampleProfile :: FinnhubCompanyProfile where
  "sampleProfile =
     \<lparr>p_country = ''NO'', p_currency = ''NOK'', p_exchange = ''OSLO'', p_ipo = ''2001-06-18'',
      p_marketCapitalization = 750000, p_name = ''Equinor'', p_phone = ''4751990000'',
      p_shareOutstanding = 3000, p_ticker = ''EQNR.OL'', p_weburl = ''equinor.com'',
      p_logo = ''logo.png'', p_finnhubIndustry = ''Oil & Gas''\<rparr>"

definition upstreamDown :: env where
  "upstreamDown =
     \<lparr>quoteAt = (\<lambda>t s. NotOk ''503 Service Unavailable''),
      profileAt = (\<lambda>t s. NotOk ''503 Service Unavailable''),
      random = (\<lambda>n. 1 / 2)\<rparr>"

definition quoteOnly :: env where
  "quoteOnly =
     \<lparr>quoteAt = (\<lambda>t s. Json sampleQuote),
      profileAt = (\<lambda>t s. NotOk ''404 Not Found''),
      random = (\<lambda>n. 1 / 2)\<rparr>"

definition upstreamUp :: env where
  "upstreamUp =
     \<lparr>quoteAt = (\<lambda>t s. Json sampleQuote),
      profileAt = (\<lambda>t s. Json sampleProfile),
      random = (\<lambda>n. 1 / 2)\<rparr>"

definition cachedRow :: "nat \<Rightarrow> string \<Rightarrow> string \<Rightarrow> string \<Rightarrow> int \<Rightarrow> MarketDataRow" where
  "cachedRow i symbol name currency t =
     \<lparr>md_id = i, md_symbol = symbol, md_name = Some name, md_exchange = Some ''US'',
      md_price = 50, md_change = Some 1, md_changePercent = Some 2, md_volume = Some ''N/A'',
      md_marketCap = None, md_previousClose = Some 49, md_dayHigh = Some 51,
      md_dayLow = Some 48, md_currency = Some currency, md_sector = Some ''Technology'',
      md_lastUpdated = Some t, md_sparklineData = Some []\<rparr>"

definition watchRow :: "nat \<Rightarrow> string \<Rightarrow> string \<Rightarrow> bool \<Rightarrow> WatchedAssetRow" where
  "watchRow i userId symbol favorite =
     \<lparr>wa_id = i, wa_userId = Some userId, wa_symbol = symbol, wa_name = None,
      wa_exchange = None, wa_assetType = Some ''stock'', wa_region = Some ''NO'',
      wa_isFavorite = Some favorite, wa_alertPrice = None, wa_alertType = None,
      wa_createdAt = Some 900000, wa_updatedAt = Some 900000\<rparr>"

text \<open>A cache written oldest first, and a watchlist of two users.\<close>

definition cachedWorld :: world where
  "cachedWorld =
     emptyWorld\<lparr>marketData := [cachedRow 0 ''AAPL'' ''Apple (cached)'' ''EUR'' 100000,
                                cachedRow 1 ''MSFT'' ''Microsoft (cached)'' ''EUR'' 200000],
                watchedAssets := [watchRow 2 ''user-1'' ''AAPL'' True,
                                  watchRow 3 ''user-1'' ''MSFT'' False,
                                  watchRow 4 ''user-2'' ''AAPL'' False],
                nextId := 5\<rparr>"

text \<open>The same cache two hundred seconds after its first row was written.\<close>

definition freshWorld :: world where
  "freshWorld = cachedWorld\<lparr>now := 300000\<rparr>"

section \<open>Properties\<close>

subsection \<open>Ordering and joining\<close>

lemma set_insertBy: "set (insertBy le x xs) = insert x (set xs)"
  by (induction xs) auto

lemma set_orderBy: "set (orderBy le xs) = set xs"
  by (induction xs) (simp_all add: orderBy_def set_insertBy)

lemma mset_insertBy: "mset (insertBy le x xs) = add_mset x (mset xs)"
  by (induction xs) auto

lemma mset_orderBy: "mset (orderBy le xs) = mset xs"
  by (induction xs) (simp_all add: orderBy_def mset_insertBy)

lemma sorted_insertBy:
  assumes total: "\<And>a b. le a b \<or> le b a"
      and trans: "\<And>a b c. le a b \<Longrightarrow> le b c \<Longrightarrow> le a c"
  shows "sorted_wrt le xs \<Longrightarrow> sorted_wrt le (insertBy le x xs)"
proof (induction xs)
  case Nil
  show ?case by simp
next
  case (Cons y ys)
  show ?case
  proof (cases "le x y")
    case True
    with Cons.prems trans show ?thesis by auto
  next
    case False
    with total have "le y x" by blast
    with Cons False show ?thesis by (auto simp: set_insertBy)
  qed
qed

lemma sorted_orderBy:
  assumes "\<And>a b. le a b \<or> le b a"
      and "\<And>a b c. le a b \<Longrightarrow> le b c \<Longrightarrow> le a c"
  shows "sorted_wrt le (orderBy le xs)"
proof (induction xs)
  case Nil
  show ?case by (simp add: orderBy_def)
next
  case (Cons x xs)
  have "orderBy le (x # xs) = insertBy le x (orderBy le xs)"
    by (simp add: orderBy_def)
  with Cons sorted_insertBy [of le, OF assms] show ?case by simp
qed

lemma descLastUpdated_total: "descLastUpdated a b \<or> descLastUpdated b a"
  by (auto simp: descLastUpdated_def split: option.splits)

lemma descLastUpdated_trans:
  "descLastUpdated a b \<Longrightarrow> descLastUpdated b c \<Longrightarrow> descLastUpdated a c"
  by (auto simp: descLastUpdated_def split: option.splits)

lemma fst_set_leftJoin: "fst ` set (leftJoin was mds) = set was"
proof (induction was)
  case Nil
  show ?case by (simp add: leftJoin_def)
next
  case (Cons a as)
  have "fst ` set (case filter (\<lambda>m. md_symbol m = wa_symbol a) mds of
                     [] \<Rightarrow> [(a, None)] | ms \<Rightarrow> map (\<lambda>m. (a, Some m)) ms) = {a}"
    by (cases "filter (\<lambda>m. md_symbol m = wa_symbol a) mds") (auto simp: image_iff)
  with Cons show ?case by (simp add: leftJoin_def image_Un)
qed

lemma getUserWatchedAssets_rows:
  "fst ` set (rowsOf (getUserWatchedAssets u w))
     = {a \<in> set (watchedAssets w). wa_userId a = Some u}"
  by (simp add: getUserWatchedAssets_def rowsOf_def set_orderBy fst_set_leftJoin)

subsection \<open>What one update does\<close>

lemma fetchFromFinnhub_eq:
  "fetchFromFinnhub respond endpoint w
     = (finnhubResponse (respond (now w)),
        w\<lparr>trace := trace w @ fetchTrace (respond (now w)) endpoint\<rparr>)"
  by (cases "finnhubResponse (respond (now w))")
     (simp_all add: fetchFromFinnhub_def fetchTrace_def emit_def)

lemma symbol_is_unique: "list_ex (sameColumns [''symbol'']) marketData_uniques"
  by (simp add: marketData_uniques_def sameColumns_def)

lemma user_symbol_not_unique:
  "\<not> list_ex (sameColumns [''user_id'', ''symbol'']) watchedAssets_uniques"
  by (simp add: watchedAssets_uniques_def sameColumns_def)

lemma updateMarketData_failed:
  assumes "finnhubResponse (quoteAt e (now w) s) = Inl err"
  shows "updateMarketData e s w = (Inl err, w\<lparr>trace := trace w @ updateTrace e s (now w)\<rparr>)"
  using assms
  by (simp add: updateMarketData_def getQuote_def getCompanyProfile_def fetchFromFinnhub_eq
      updateTrace_def emit_def)

lemma updateMarketData_done:
  assumes "finnhubResponse (quoteAt e (now w) s) = Inr q"
  shows "updateMarketData e s w
           = (Inr (), w\<lparr>marketData := upsertedRows e s q w,
                        nextId := Suc (nextId w),
                        randomDraws := randomDraws w + 7,
                        trace := trace w @ updateTrace e s (now w)\<rparr>)"
  using assms
  by (simp add: updateMarketData_def getQuote_def getCompanyProfile_def fetchFromFinnhub_eq
      updateTrace_def onConflictDoUpdate_def symbol_is_unique generateSparklineData_def
      upsertedRows_def sparklineOf_def profileOf_def insertedRow_def conflictSet_def Let_def)

lemma updateMarketData_watchedAssets:
  "watchedAssets (snd (updateMarketData e s w)) = watchedAssets w"
  by (cases "finnhubResponse (quoteAt e (now w) s)")
     (simp_all add: updateMarketData_failed updateMarketData_done)

lemma addWatchedAsset_rejected:
  "fst (addWatchedAsset e u s f x w) = Inl (DatabaseError
        ''there is no unique or exclusion constraint matching the ON CONFLICT specification'')
   \<and> watchedAssets (snd (addWatchedAsset e u s f x w)) = watchedAssets w"
proof -
  have wa: "watchedAssets (snd (updateMarketData e s w)) = watchedAssets w"
    by (rule updateMarketData_watchedAssets)
  show ?thesis
    using wa
    by (cases "updateMarketData e s w"; cases "fst (updateMarketData e s w)")
       (simp_all add: addWatchedAsset_def onConflictDoUpdate_def user_symbol_not_unique
          Let_def emit_def)
qed

subsection \<open>The watchlist\<close>

text \<open>
  C6. \<open>removeWatchedAsset\<close> resolves, deletes the rows of the pair (user, symbol) and no
  other row, leaves nothing of that symbol in the user's \<open>getUserWatchedAssets\<close>, and a
  second call resolves as well and changes nothing.
\<close>

theorem removeWatchedAsset_idempotent:
  "fst (removeWatchedAsset u s w) = Inr ()
   \<and> snd (removeWatchedAsset u s w)
       = w\<lparr>watchedAssets := filter (\<lambda>r. \<not> watchKey u s r) (watchedAssets w)\<rparr>
   \<and> (\<forall>u' s'. (u', s') \<noteq> (u, s) \<longrightarrow>
         filter (watchKey u' s') (watchedAssets (snd (removeWatchedAsset u s w)))
           = filter (watchKey u' s') (watchedAssets w))
   \<and> s \<notin> wa_symbol ` fst ` set (rowsOf (getUserWatchedAssets u (snd (removeWatchedAsset u s w))))
   \<and> removeWatchedAsset u s (snd (removeWatchedAsset u s w))
       = (Inr (), snd (removeWatchedAsset u s w))"
proof -
  let ?w1 = "snd (removeWatchedAsset u s w)"
  have w1: "?w1 = w\<lparr>watchedAssets := filter (\<lambda>r. \<not> watchKey u s r) (watchedAssets w)\<rparr>"
    by (simp add: removeWatchedAsset_def)
  have others: "filter (watchKey u' s') (watchedAssets ?w1) = filter (watchKey u' s') (watchedAssets w)"
    if "(u', s') \<noteq> (u, s)" for u' s'
    using that unfolding w1 by (auto simp: watchKey_def intro!: filter_cong)
  have gone: "s \<notin> wa_symbol ` fst ` set (rowsOf (getUserWatchedAssets u ?w1))"
    unfolding getUserWatchedAssets_rows w1 by (auto simp: watchKey_def)
  have again: "removeWatchedAsset u s ?w1 = (Inr (), ?w1)"
    unfolding w1 by (simp add: removeWatchedAsset_def)
  show ?thesis
    using w1 others gone again by (simp add: removeWatchedAsset_def)
qed

theorem removeWatchedAsset_idempotent_witness:
  "(''user-1'', ''MSFT'') \<noteq> (''user-1'', ''AAPL'')
   \<and> filter (watchKey ''user-1'' ''MSFT'')
        (watchedAssets (snd (removeWatchedAsset ''user-1'' ''AAPL'' cachedWorld)))
       = [watchRow 3 ''user-1'' ''MSFT'' False]
   \<and> map (wa_symbol \<circ> fst)
        (rowsOf (getUserWatchedAssets ''user-1''
                  (snd (removeWatchedAsset ''user-1'' ''AAPL'' cachedWorld)))) = [''MSFT'']"
proof -
  have ne: "(''user-1'', ''MSFT'') \<noteq> (''user-1'', ''AAPL'')"
    by simp
  have keep:
    "filter (watchKey ''user-1'' ''MSFT'')
       (watchedAssets (snd (removeWatchedAsset ''user-1'' ''AAPL'' cachedWorld)))
     = filter (watchKey ''user-1'' ''MSFT'') (watchedAssets cachedWorld)"
    by (rule removeWatchedAsset_idempotent [of "''user-1''" "''AAPL''" cachedWorld,
          THEN conjunct2, THEN conjunct2, THEN conjunct1, rule_format]) simp
  have base: "filter (watchKey ''user-1'' ''MSFT'') (watchedAssets cachedWorld)
          = [watchRow 3 ''user-1'' ''MSFT'' False]"
    by (simp add: cachedWorld_def emptyWorld_def watchKey_def watchRow_def)
  have listed: "map (wa_symbol \<circ> fst)
        (rowsOf (getUserWatchedAssets ''user-1''
                  (snd (removeWatchedAsset ''user-1'' ''AAPL'' cachedWorld)))) = [''MSFT'']"
    by code_simp
  from ne keep [THEN trans, OF base] listed show ?thesis
    by (intro conjI)
qed

text \<open>
  C1. The claim: two calls of \<open>addWatchedAsset\<close> for one (user, symbol) leave exactly one
  row. The statement names \<open>(user_id, symbol)\<close> as its conflict target, and the schema
  gives \<open>watched_assets\<close> no unique constraint on that pair (\<open>market_data.symbol\<close> has
  one), so the database rejects every call and no row is ever stored.
\<close>

theorem addWatchedAsset_twice_no_row:
  "fst (addWatchedAsset quoteOnly ''user-1'' ''AAPL'' None None emptyWorld)
     = Inl (DatabaseError
        ''there is no unique or exclusion constraint matching the ON CONFLICT specification'')
   \<and> watchedAssets
       (snd (addWatchedAsset quoteOnly ''user-1'' ''AAPL'' None None
         (snd (addWatchedAsset quoteOnly ''user-1'' ''AAPL'' None None emptyWorld)))) = []
   \<and> rowsOf (getUserWatchedAssets ''user-1''
       (snd (addWatchedAsset quoteOnly ''user-1'' ''AAPL'' None None
         (snd (addWatchedAsset quoteOnly ''user-1'' ''AAPL'' None None emptyWorld))))) = []"
proof -
  have "watchedAssets emptyWorld = []"
    by (simp add: emptyWorld_def)
  then show ?thesis
    by (simp add: addWatchedAsset_rejected getUserWatchedAssets_def rowsOf_def leftJoin_def
        orderBy_def)
qed

lemma toggleFavorite_absent:
  assumes "find (watchKey u s) (watchedAssets w) = None"
  shows "fst (toggleFavorite e u s w) = Inl (DatabaseError
        ''there is no unique or exclusion constraint matching the ON CONFLICT specification'')
   \<and> watchedAssets (snd (toggleFavorite e u s w)) = watchedAssets w"
  using assms by (simp add: toggleFavorite_def addWatchedAsset_rejected)

lemma toggleFavorite_present:
  assumes "find (watchKey u s) (watchedAssets w) = Some r"
  shows "toggleFavorite e u s w
           = (Inr (), w\<lparr>watchedAssets :=
                map (\<lambda>x. if watchKey u s x
                         then x\<lparr>wa_isFavorite := Some (jsNot (wa_isFavorite r)),
                                wa_updatedAt := Some (now w)\<rparr>
                         else x) (watchedAssets w)\<rparr>)"
  using assms by (simp add: toggleFavorite_def)

text \<open>
  C5. The claim: \<open>toggleFavorite\<close> creates a favourite record when the pair has none. That
  branch is \<open>addWatchedAsset\<close>, which the database rejects: on an empty table the call
  rejects and the table stays empty. (With a record present the flag is flipped and a
  second toggle restores it, see the last subsection.)
\<close>

theorem toggleFavorite_absent_no_row:
  "fst (toggleFavorite quoteOnly ''user-1'' ''AAPL'' emptyWorld)
     = Inl (DatabaseError
        ''there is no unique or exclusion constraint matching the ON CONFLICT specification'')
   \<and> watchedAssets (snd (toggleFavorite quoteOnly ''user-1'' ''AAPL'' emptyWorld)) = []"
proof -
  have "find (watchKey ''user-1'' ''AAPL'') (watchedAssets emptyWorld) = None"
    and "watchedAssets emptyWorld = []"
    by (simp_all add: emptyWorld_def)
  then show ?thesis
    using toggleFavorite_absent by simp
qed

subsection \<open>The read path\<close>

text \<open>
  C2, as the code has it. \<open>getMarketDataFromDB\<close> leaves the world as it found it (no
  request, no write) and always resolves. Without a filter, or with an empty one, it
  returns every row of the cache, latest update first. With a filter that names at least one
  symbol it returns the rows of those symbols in storage order.
\<close>

theorem getMarketDataFromDB_read_only:
  "snd (getMarketDataFromDB symbols w) = w
   \<and> (\<exists>rows. fst (getMarketDataFromDB symbols w) = Inr rows)
   \<and> (symbols = None \<or> symbols = Some [] \<longrightarrow>
        sorted_wrt descLastUpdated (rowsOf (getMarketDataFromDB symbols w))
        \<and> mset (rowsOf (getMarketDataFromDB symbols w)) = mset (marketData w))
   \<and> (\<forall>ss. symbols = Some ss \<and> ss \<noteq> [] \<longrightarrow>
        rowsOf (getMarketDataFromDB symbols w)
          = filter (\<lambda>r. md_symbol r \<in> set ss) (marketData w))"
proof -
  have sorted: "sorted_wrt descLastUpdated (orderBy descLastUpdated (marketData w))"
    by (rule sorted_orderBy) (use descLastUpdated_total descLastUpdated_trans in blast)+
  show ?thesis
    using sorted
    by (auto simp: getMarketDataFromDB_def rowsOf_def mset_orderBy split: option.splits list.splits)
qed

theorem getMarketDataFromDB_read_only_witness:
  "rowsOf (getMarketDataFromDB None cachedWorld)
     = [cachedRow 1 ''MSFT'' ''Microsoft (cached)'' ''EUR'' 200000,
        cachedRow 0 ''AAPL'' ''Apple (cached)'' ''EUR'' 100000]
   \<and> sorted_wrt descLastUpdated (rowsOf (getMarketDataFromDB None cachedWorld))
   \<and> rowsOf (getMarketDataFromDB (Some [''AAPL'']) cachedWorld)
      = filter (\<lambda>r. md_symbol r \<in> set [''AAPL'']) (marketData cachedWorld)"
proof -
  have rows: "rowsOf (getMarketDataFromDB None cachedWorld)
     = [cachedRow 1 ''MSFT'' ''Microsoft (cached)'' ''EUR'' 200000,
        cachedRow 0 ''AAPL'' ''Apple (cached)'' ''EUR'' 100000]"
    by (simp add: getMarketDataFromDB_def rowsOf_def cachedWorld_def emptyWorld_def
        orderBy_def descLastUpdated_def cachedRow_def)
  have ne: "[''AAPL''] \<noteq> []" by simp
  note ro = getMarketDataFromDB_read_only
  from ro [of None cachedWorld]
  have s: "sorted_wrt descLastUpdated (rowsOf (getMarketDataFromDB None cachedWorld))"
    by blast
  from ro [of "Some [''AAPL'']" cachedWorld] ne
  have f: "rowsOf (getMarketDataFromDB (Some [''AAPL'']) cachedWorld)
      = filter (\<lambda>r. md_symbol r \<in> set [''AAPL'']) (marketData cachedWorld)"
    by blast
  from rows s f show ?thesis by (intro conjI)
qed

text \<open>
  C2, as claimed, fails with a filter: the filtered query has no \<open>ORDER BY\<close>, and a cache
  written oldest first comes back oldest first.
\<close>

theorem getMarketDataFromDB_filtered_unordered:
  "\<not> sorted_wrt descLastUpdated
       (rowsOf (getMarketDataFromDB (Some [''AAPL'', ''MSFT'']) cachedWorld))"
  by (simp add: getMarketDataFromDB_def rowsOf_def cachedWorld_def emptyWorld_def
      descLastUpdated_def cachedRow_def)

subsection \<open>Unknown exchange codes\<close>

lemma inherited_constructor: "EXCHANGE_STOCKS_get ''constructor'' = Inherited"
  by (simp add: EXCHANGE_STOCKS_get_def EXCHANGE_STOCKS_def objectPrototypeKeys_def)

lemma unknown_exchange_plain:
  assumes "EXCHANGE_STOCKS_get ex = Undefined"
  shows "getMarketDataByExchange e ex w = (Inl (Error (''Unsupported exchange: '' @ ex)), w)"
    and "initializeExchangeData e ex w = (Inr (), w)"
  using assms by (simp_all add: getMarketDataByExchange_def initializeExchangeData_def)

text \<open>
  C10. The claim: a code outside the catalog makes \<open>getMarketDataByExchange\<close> throw
  "Unsupported exchange" and makes \<open>initializeExchangeData\<close> return silently. The code
  \<open>constructor\<close> is not in the catalog, yet the property read finds the inherited
  member, the guard passes, and the \<open>for ... of\<close> loop throws a TypeError out of both
  methods.
\<close>

theorem unknown_exchange_inherited_key:
  "map_of EXCHANGE_STOCKS ''constructor'' = None
   \<and> initializeExchangeData e ''constructor'' w
       = (Inl (TypeError ''exchangeStocks is not iterable''), w)
   \<and> getMarketDataByExchange e ''constructor'' w
       = (Inl (TypeError ''exchangeStocks is not iterable''), w)"
  by (simp add: getMarketDataByExchange_def initializeExchangeData_def inherited_constructor)
     (simp add: EXCHANGE_STOCKS_def)

subsection \<open>The cache holds one row per symbol\<close>

lemma conflictSet_symbol [simp]: "md_symbol (conflictSet q sp w r) = md_symbol r"
  by (simp add: conflictSet_def)

lemma insertedRow_symbol [simp]: "md_symbol (insertedRow s q p sp w) = s"
  by (simp add: insertedRow_def)

lemma list_ex_symbol: "list_ex (\<lambda>r. md_symbol r = s) rows \<longleftrightarrow> s \<in> md_symbol ` set rows"
  by (auto simp: list_ex_iff)

lemma upsertedRows_symbols:
  "map md_symbol (upsertedRows e s q w)
     = (if s \<in> md_symbol ` set (marketData w) then map md_symbol (marketData w)
        else map md_symbol (marketData w) @ [s])"
  by (simp add: upsertedRows_def list_ex_symbol o_def cong: if_cong map_cong)

lemma upsertedRows_distinct:
  "distinct (map md_symbol (marketData w)) \<Longrightarrow> distinct (map md_symbol (upsertedRows e s q w))"
  by (simp add: upsertedRows_symbols)

lemma updateMarketData_distinct:
  assumes "distinct (map md_symbol (marketData w))"
  shows "distinct (map md_symbol (marketData (snd (updateMarketData e s w))))"
  using assms
  by (cases "finnhubResponse (quoteAt e (now w) s)")
     (simp_all add: updateMarketData_failed updateMarketData_done upsertedRows_distinct)

lemma distinct_count_le_1:
  "distinct (map f xs) \<Longrightarrow> length (filter (\<lambda>r. f r = k) xs) \<le> 1"
  by (induction xs) (auto simp: filter_empty_conv image_iff)

lemma finnhubResponse_Json [simp]: "finnhubResponse (Json d) = Inr d"
  by (simp add: finnhubResponse_def)

lemma finnhubResponse_Inr_iff: "finnhubResponse r = Inr d \<longleftrightarrow> r = Json d"
  by (cases r) (simp_all add: finnhubResponse_def)

subsection \<open>Fallback metadata when the profile request fails\<close>

lemma str_includes_sublist: "str_includes s p \<longleftrightarrow> sublist p s"
  by (induction s) (auto simp: sublist_Cons_right)

lemma catalog_named:
  "\<forall>st \<in> set (concat (map snd EXCHANGE_STOCKS)). st_name st \<noteq> [] \<and> st_sector st \<noteq> []"
  by (simp add: EXCHANGE_STOCKS_def mkStock_def)

lemma find_SomeD: "find P xs = Some x \<Longrightarrow> P x \<and> x \<in> set xs"
  by (induction xs) (auto split: if_splits)

lemma stockInfo_named:
  assumes "stockInfo s = Some st"
  shows "st_name st \<noteq> []" and "st_sector st \<noteq> []" and "st_symbol st = s"
proof -
  from assms have "st \<in> set (concat (map snd EXCHANGE_STOCKS))" and sym: "st_symbol st = s"
    unfolding stockInfo_def by (auto dest: find_SomeD)
  with catalog_named show "st_name st \<noteq> []" and "st_sector st \<noteq> []"
    by blast+
  show "st_symbol st = s" by (rule sym)
qed

lemma fallback_name:
  "orElse None (orElse (map_option st_name (stockInfo s)) s)
     = (case stockInfo s of Some st \<Rightarrow> st_name st | None \<Rightarrow> s)"
  by (cases "stockInfo s") (auto simp: orElse_def dest: stockInfo_named)

lemma fallback_sector:
  "orElse (map_option st_sector (stockInfo s)) (orElse None ''Unknown'')
     = (case stockInfo s of Some st \<Rightarrow> st_sector st | None \<Rightarrow> ''Unknown'')"
  by (cases "stockInfo s") (auto simp: orElse_def dest: stockInfo_named)

lemma conflictSet_metadata:
  "md_name (conflictSet q sp w r) = md_name r"
  "md_sector (conflictSet q sp w r) = md_sector r"
  "md_currency (conflictSet q sp w r) = md_currency r"
  "md_exchange (conflictSet q sp w r) = md_exchange r"
  by (simp_all add: conflictSet_def)

text \<open>
  C7, as the code has it. When the quote arrives and the profile request fails,
  \<open>updateMarketData\<close> resolves. For a symbol with no cached row it appends a row whose name
  is the catalog name (else the symbol), whose sector is the catalog sector (else
  "Unknown"), and whose currency is "NOK" when the symbol ends in ".OL" and "USD" when
  ".OL" occurs nowhere in it. For a symbol that has its row, name, sector and currency of
  every row stay as they were.
\<close>

lemma insertedRow_currency:
  "md_currency (insertedRow s q None sp w)
     = Some (if str_includes s ''.OL'' then ''NOK'' else ''USD'')"
  by (simp add: insertedRow_def orElse_def)




subsection \<open>Traces of the batch loops\<close>

lemma since_self [simp]: "since w w = []"
  by (simp add: since_def)

lemma since_append:
  assumes "trace w' = trace w @ evs"
  shows "since w w' = evs"
  using assms by (simp add: since_def)

lemma since_trans:
  assumes "trace w1 = trace w @ a" and "trace w2 = trace w1 @ b"
  shows "trace w2 = trace w @ (a @ b)"
  using assms by simp

lemma quoteRequests_append [simp]:
  "quoteRequests (a @ b) = quoteRequests a @ quoteRequests b"
  by (simp add: quoteRequests_def)

lemma delays_append [simp]: "delays (a @ b) = delays a @ delays b"
  by (simp add: delays_def)

lemma quoteRequests_simps [simp]:
  "quoteRequests [] = []"
  "quoteRequests (Sleep ms # evs) = quoteRequests evs"
  "quoteRequests (ConsoleError m # evs) = quoteRequests evs"
  "quoteRequests (ConsoleWarn m # evs) = quoteRequests evs"
  "quoteRequests (Fetch (quoteEndpoint s) # evs) = quoteEndpoint s # quoteRequests evs"
  "quoteRequests (Fetch (profileEndpoint s) # evs) = quoteRequests evs"
  by (simp_all add: quoteRequests_def quoteEndpoint_def profileEndpoint_def)

lemma delays_simps [simp]:
  "delays [] = []"
  "delays (Sleep ms # evs) = ms # delays evs"
  "delays (ConsoleError m # evs) = delays evs"
  "delays (ConsoleWarn m # evs) = delays evs"
  "delays (Fetch ep # evs) = delays evs"
  by (simp_all add: delays_def)

lemma endpoint_prefixes [simp]:
  "prefix ''/quote?'' (quoteEndpoint s)"
  "\<not> prefix ''/quote?'' (profileEndpoint s)"
  by (simp_all add: quoteEndpoint_def profileEndpoint_def)

lemma spacedFrom_endpoints [simp]:
  "spacedFrom rested (Fetch (quoteEndpoint s) # evs) = (rested \<and> spacedFrom False evs)"
  "spacedFrom rested (Fetch (profileEndpoint s) # evs) = spacedFrom rested evs"
  by (simp_all add: quoteEndpoint_def profileEndpoint_def)

lemma updateTrace_failed:
  assumes "finnhubResponse (quoteAt e t s) = Inl err"
  shows "updateTrace e s t
           = Fetch (quoteEndpoint s)
             # ConsoleError (''Failed to fetch from Finnhub: '' @ quoteEndpoint s)
             # fetchTrace (profileAt e t s) (profileEndpoint s)
             @ [ConsoleError (''Failed to update market data for '' @ s @ '':'')]"
  using assms by (simp add: updateTrace_def fetchTrace_def)

lemma updateTrace_done:
  assumes "finnhubResponse (quoteAt e t s) = Inr q"
  shows "updateTrace e s t
           = Fetch (quoteEndpoint s) # fetchTrace (profileAt e t s) (profileEndpoint s)"
  using assms by (simp add: updateTrace_def fetchTrace_def)

lemma quoteRequests_fetchTrace_profile [simp]:
  "quoteRequests (fetchTrace r (profileEndpoint s)) = []"
  by (cases "finnhubResponse r") (simp_all add: fetchTrace_def)

lemma delays_fetchTrace [simp]: "delays (fetchTrace r ep) = []"
  by (cases "finnhubResponse r") (simp_all add: fetchTrace_def)

lemma spacedFrom_fetchTrace_profile [simp]:
  "spacedFrom rested (fetchTrace r (profileEndpoint s) @ evs) = spacedFrom rested evs"
  by (cases "finnhubResponse r") (simp_all add: fetchTrace_def)

lemma quoteRequests_updateTrace [simp]:
  "quoteRequests (updateTrace e s t) = [quoteEndpoint s]"
  by (cases "finnhubResponse (quoteAt e t s)")
     (simp_all add: updateTrace_failed updateTrace_done)

lemma delays_updateTrace [simp]: "delays (updateTrace e s t) = []"
  by (cases "finnhubResponse (quoteAt e t s)")
     (simp_all add: updateTrace_failed updateTrace_done)

lemma initializeNorwegianStock_failed:
  assumes "finnhubResponse (quoteAt e (now w) (st_symbol stock)) = Inl err"
  shows "initializeNorwegianStock e stock w
           = w\<lparr>trace := trace w @ updateTrace e (st_symbol stock) (now w)
                    @ [ConsoleError (''Failed to initialize '' @ st_symbol stock @ '':'')]\<rparr>"
  using assms by (simp add: initializeNorwegianStock_def updateMarketData_failed emit_def)

lemma initializeNorwegianStock_done:
  assumes "finnhubResponse (quoteAt e (now w) (st_symbol stock)) = Inr q"
  shows "initializeNorwegianStock e stock w
           = w\<lparr>marketData := upsertedRows e (st_symbol stock) q w,
               now := now w + 1100,
               nextId := Suc (nextId w),
               randomDraws := randomDraws w + 7,
               trace := trace w @ updateTrace e (st_symbol stock) (now w) @ [Sleep 1100]\<rparr>"
  using assms
  by (simp add: initializeNorwegianStock_def updateMarketData_done emit_def setTimeout_def)

lemma initializeExchangeStock_skipped:
  assumes "\<not> shouldUpdate (find (\<lambda>r. md_symbol r = st_symbol stock) (marketData w)) (now w)"
  shows "initializeExchangeStock e ex stock w = w"
  using assms by (simp add: initializeExchangeStock_def)

lemma initializeExchangeStock_failed:
  assumes "shouldUpdate (find (\<lambda>r. md_symbol r = st_symbol stock) (marketData w)) (now w)"
      and "finnhubResponse (quoteAt e (now w) (st_symbol stock)) = Inl err"
  shows "initializeExchangeStock e ex stock w
           = w\<lparr>trace := trace w @ updateTrace e (st_symbol stock) (now w)
                    @ [ConsoleError (''Failed to initialize '' @ st_symbol stock
                                      @ '' on '' @ ex @ '':'')]\<rparr>"
  using assms by (simp add: initializeExchangeStock_def updateMarketData_failed emit_def)

lemma initializeExchangeStock_done:
  assumes "shouldUpdate (find (\<lambda>r. md_symbol r = st_symbol stock) (marketData w)) (now w)"
      and "finnhubResponse (quoteAt e (now w) (st_symbol stock)) = Inr q"
  shows "initializeExchangeStock e ex stock w
           = w\<lparr>marketData := upsertedRows e (st_symbol stock) q w,
               now := now w + 1100,
               nextId := Suc (nextId w),
               randomDraws := randomDraws w + 7,
               trace := trace w @ updateTrace e (st_symbol stock) (now w) @ [Sleep 1100]\<rparr>"
  using assms
  by (simp add: initializeExchangeStock_def updateMarketData_done emit_def setTimeout_def)

text \<open>Every iteration extends the trace, and so does the loop.\<close>

lemma initializeNorwegianStock_extends:
  "\<exists>evs. trace (initializeNorwegianStock e stock w) = trace w @ evs"
  by (cases "finnhubResponse (quoteAt e (now w) (st_symbol stock))")
     (simp_all add: initializeNorwegianStock_failed initializeNorwegianStock_done)

lemma initializeExchangeStock_extends:
  "\<exists>evs. trace (initializeExchangeStock e ex stock w) = trace w @ evs"
  by (cases "shouldUpdate (find (\<lambda>r. md_symbol r = st_symbol stock) (marketData w)) (now w)";
      cases "finnhubResponse (quoteAt e (now w) (st_symbol stock))")
     (simp_all add: initializeExchangeStock_failed initializeExchangeStock_done
        initializeExchangeStock_skipped)

lemma forEachStock_extends:
  assumes "\<And>stock w. \<exists>evs. trace (body stock w) = trace w @ evs"
  shows "\<exists>evs. trace (forEachStock body stocks w) = trace w @ evs"
proof (induction stocks arbitrary: w)
  case Nil
  show ?case by simp
next
  case (Cons stock rest)
  from assms obtain a where a: "trace (body stock w) = trace w @ a"
    by blast
  from Cons [of "body stock w"] obtain b
    where "trace (forEachStock body rest (body stock w)) = trace (body stock w) @ b"
    by blast
  with a show ?case by simp
qed

lemma since_step:
  assumes "\<And>stock w. \<exists>evs. trace (body stock w) = trace w @ evs"
  shows "since w (forEachStock body rest (body stock w))
           = since w (body stock w) @ since (body stock w) (forEachStock body rest (body stock w))"
proof -
  from assms obtain a where a: "trace (body stock w) = trace w @ a"
    by blast
  from forEachStock_extends [of body, OF assms] obtain b
    where b: "trace (forEachStock body rest (body stock w)) = trace (body stock w) @ b"
    by blast
  from a b show ?thesis
    by (simp add: since_def)
qed

lemma since_initializeNorwegianStock:
  "since w (initializeNorwegianStock e stock w)
     = updateTrace e (st_symbol stock) (now w)
       @ [case finnhubResponse (quoteAt e (now w) (st_symbol stock)) of
            Inl _ \<Rightarrow> ConsoleError (''Failed to initialize '' @ st_symbol stock @ '':'')
          | Inr _ \<Rightarrow> Sleep 1100]"
  by (cases "finnhubResponse (quoteAt e (now w) (st_symbol stock))")
     (simp_all add: initializeNorwegianStock_failed initializeNorwegianStock_done since_def)

lemma since_initializeExchangeStock:
  "since w (initializeExchangeStock e ex stock w)
     = (if shouldUpdate (find (\<lambda>r. md_symbol r = st_symbol stock) (marketData w)) (now w)
        then updateTrace e (st_symbol stock) (now w)
             @ [case finnhubResponse (quoteAt e (now w) (st_symbol stock)) of
                  Inl _ \<Rightarrow> ConsoleError (''Failed to initialize '' @ st_symbol stock
                                           @ '' on '' @ ex @ '':'')
                | Inr _ \<Rightarrow> Sleep 1100]
        else [])"
  by (cases "shouldUpdate (find (\<lambda>r. md_symbol r = st_symbol stock) (marketData w)) (now w)";
      cases "finnhubResponse (quoteAt e (now w) (st_symbol stock))")
     (simp_all add: initializeExchangeStock_failed initializeExchangeStock_done
        initializeExchangeStock_skipped since_def)

lemma norwegian_requests:
  "quoteRequests (since w (forEachStock (initializeNorwegianStock e) stocks w))
     = map (quoteEndpoint \<circ> st_symbol) stocks"
proof (induction stocks arbitrary: w)
  case Nil
  show ?case by simp
next
  case (Cons stock rest)
  have "since w (forEachStock (initializeNorwegianStock e) (stock # rest) w)
          = since w (initializeNorwegianStock e stock w)
            @ since (initializeNorwegianStock e stock w)
                (forEachStock (initializeNorwegianStock e) rest (initializeNorwegianStock e stock w))"
    using since_step [of "initializeNorwegianStock e", OF initializeNorwegianStock_extends]
    by simp
  then show ?case
    by (simp add: Cons since_initializeNorwegianStock split: sum.splits)
qed

lemma norwegian_failures_logged:
  assumes "stock \<in> set stocks"
      and "\<forall>t. \<exists>err. finnhubResponse (quoteAt e t (st_symbol stock)) = Inl err"
  shows "ConsoleError (''Failed to initialize '' @ st_symbol stock @ '':'')
           \<in> set (since w (forEachStock (initializeNorwegianStock e) stocks w))"
  using assms(1)
proof (induction stocks arbitrary: w)
  case Nil
  then show ?case by simp
next
  case (Cons x rest)
  have step: "since w (forEachStock (initializeNorwegianStock e) (x # rest) w)
          = since w (initializeNorwegianStock e x w)
            @ since (initializeNorwegianStock e x w)
                (forEachStock (initializeNorwegianStock e) rest (initializeNorwegianStock e x w))"
    using since_step [of "initializeNorwegianStock e", OF initializeNorwegianStock_extends]
    by simp
  show ?case
  proof (cases "stock = x")
    case True
    from assms(2) obtain err
      where "finnhubResponse (quoteAt e (now w) (st_symbol stock)) = Inl err"
      by blast
    with True show ?thesis
      unfolding step by (simp add: since_initializeNorwegianStock)
  next
    case False
    with Cons.prems have "stock \<in> set rest" by simp
    from Cons.IH [OF this] show ?thesis
      unfolding step by simp
  qed
qed

subsection \<open>Batch initialisation survives failing symbols\<close>

lemma shouldUpdate_absent:
  assumes "s \<notin> md_symbol ` set rows"
  shows "shouldUpdate (find (\<lambda>r. md_symbol r = s) rows) t"
proof -
  from assms have "find (\<lambda>r. md_symbol r = s) rows = None"
    by (auto simp: find_None_iff)
  then show ?thesis by (simp add: shouldUpdate_def)
qed

lemma upsertedRows_symbol_set:
  "md_symbol ` set (upsertedRows e s q w) = insert s (md_symbol ` set (marketData w))"
proof -
  have "set (map md_symbol (upsertedRows e s q w)) = insert s (md_symbol ` set (marketData w))"
    unfolding upsertedRows_symbols by auto
  then show ?thesis by simp
qed

lemma initializeExchangeStock_symbols:
  "md_symbol ` set (marketData (initializeExchangeStock e ex x w))
     \<subseteq> insert (st_symbol x) (md_symbol ` set (marketData w))"
proof (cases "shouldUpdate (find (\<lambda>r. md_symbol r = st_symbol x) (marketData w)) (now w)")
  case False
  then show ?thesis
    by (auto simp: initializeExchangeStock_skipped)
next
  case True
  show ?thesis
  proof (cases "finnhubResponse (quoteAt e (now w) (st_symbol x))")
    case (Inl err)
    with True show ?thesis
      by (auto simp: initializeExchangeStock_failed)
  next
    case (Inr q)
    with True show ?thesis
      by (simp add: initializeExchangeStock_done upsertedRows_symbol_set)
  qed
qed

lemma initializeExchangeStock_failed_rows:
  assumes "finnhubResponse (quoteAt e (now w) (st_symbol x)) = Inl err"
  shows "marketData (initializeExchangeStock e ex x w) = marketData w"
  using assms
  by (cases "shouldUpdate (find (\<lambda>r. md_symbol r = st_symbol x) (marketData w)) (now w)")
     (simp_all add: initializeExchangeStock_failed initializeExchangeStock_skipped)

lemma exchange_step:
  "since w (forEachStock (initializeExchangeStock e ex) (x # rest) w)
     = since w (initializeExchangeStock e ex x w)
       @ since (initializeExchangeStock e ex x w)
           (forEachStock (initializeExchangeStock e ex) rest (initializeExchangeStock e ex x w))"
  using since_step [of "initializeExchangeStock e ex", OF initializeExchangeStock_extends]
  by simp

lemma exchange_absent_requested:
  assumes "stock \<in> set stocks"
      and "st_symbol stock \<notin> md_symbol ` set (marketData w)"
  shows "quoteEndpoint (st_symbol stock)
           \<in> set (quoteRequests (since w (forEachStock (initializeExchangeStock e ex) stocks w)))"
  using assms
proof (induction stocks arbitrary: w)
  case Nil
  then show ?case by simp
next
  case (Cons x rest)
  show ?case
  proof (cases "st_symbol x = st_symbol stock")
    case True
    with Cons.prems(2)
    have "shouldUpdate (find (\<lambda>r. md_symbol r = st_symbol x) (marketData w)) (now w)"
      by (simp add: shouldUpdate_absent)
    with True show ?thesis
      unfolding exchange_step by (simp add: since_initializeExchangeStock)
  next
    case False
    with Cons.prems(1) have "stock \<in> set rest" by auto
    moreover from False Cons.prems(2) initializeExchangeStock_symbols [of e ex x w]
    have "st_symbol stock \<notin> md_symbol ` set (marketData (initializeExchangeStock e ex x w))"
      by auto
    ultimately show ?thesis
      unfolding exchange_step using Cons.IH by simp
  qed
qed

lemma exchange_failures_logged:
  assumes "stock \<in> set stocks"
      and "st_symbol stock \<notin> md_symbol ` set (marketData w)"
      and "\<forall>t. \<exists>err. finnhubResponse (quoteAt e t (st_symbol stock)) = Inl err"
  shows "ConsoleError (''Failed to initialize '' @ st_symbol stock @ '' on '' @ ex @ '':'')
           \<in> set (since w (forEachStock (initializeExchangeStock e ex) stocks w))"
  using assms(1,2)
proof (induction stocks arbitrary: w)
  case Nil
  then show ?case by simp
next
  case (Cons x rest)
  show ?case
  proof (cases "st_symbol x = st_symbol stock")
    case True
    with Cons.prems(2)
    have stale: "shouldUpdate (find (\<lambda>r. md_symbol r = st_symbol x) (marketData w)) (now w)"
      by (simp add: shouldUpdate_absent)
    from assms(3) True obtain err
      where "finnhubResponse (quoteAt e (now w) (st_symbol x)) = Inl err"
      by auto
    with stale True show ?thesis
      unfolding exchange_step by (simp add: since_initializeExchangeStock)
  next
    case False
    with Cons.prems(1) have "stock \<in> set rest" by auto
    moreover from False Cons.prems(2) initializeExchangeStock_symbols [of e ex x w]
    have "st_symbol stock \<notin> md_symbol ` set (marketData (initializeExchangeStock e ex x w))"
      by auto
    ultimately show ?thesis
      unfolding exchange_step using Cons.IH by simp
  qed
qed

lemma EXCHANGE_STOCKS_get_Own:
  "EXCHANGE_STOCKS_get ex = Own stocks \<longleftrightarrow> map_of EXCHANGE_STOCKS ex = Some stocks"
  by (simp add: EXCHANGE_STOCKS_get_def split: option.splits)

lemma initializeExchangeData_catalog:
  assumes "map_of EXCHANGE_STOCKS ex = Some stocks"
  shows "initializeExchangeData e ex w
           = (Inr (), forEachStock (initializeExchangeStock e ex) stocks w)"
  using assms by (simp add: initializeExchangeData_def EXCHANGE_STOCKS_get_def)



subsection \<open>The delay between upstream requests\<close>

lemma norwegian_step:
  "since w (forEachStock (initializeNorwegianStock e) (x # rest) w)
     = since w (initializeNorwegianStock e x w)
       @ since (initializeNorwegianStock e x w)
           (forEachStock (initializeNorwegianStock e) rest (initializeNorwegianStock e x w))"
  using since_step [of "initializeNorwegianStock e", OF initializeNorwegianStock_extends]
  by simp

lemma spacedFrom_refresh:
  assumes "finnhubResponse (quoteAt e t s) = Inr q"
  shows "spacedFrom True ((updateTrace e s t @ [Sleep 1100]) @ evs) = spacedFrom True evs"
  using assms by (simp add: updateTrace_done)

lemma norwegian_throttled:
  assumes ok: "\<forall>t s. \<exists>q. quoteAt e t s = Json q"
  shows "(\<forall>evs. spacedFrom True (since w (forEachStock (initializeNorwegianStock e) stocks w) @ evs)
                 = spacedFrom True evs)
       \<and> delays (since w (forEachStock (initializeNorwegianStock e) stocks w))
           = replicate (length stocks) 1100
       \<and> now (forEachStock (initializeNorwegianStock e) stocks w)
           = now w + 1100 * int (length stocks)"
proof (induction stocks arbitrary: w)
  case Nil
  show ?case by simp
next
  case (Cons x rest)
  from ok obtain q where "quoteAt e (now w) (st_symbol x) = Json q"
    by blast
  then have q: "finnhubResponse (quoteAt e (now w) (st_symbol x)) = Inr q"
    by simp
  let ?w1 = "initializeNorwegianStock e x w"
  have body: "since w ?w1 = updateTrace e (st_symbol x) (now w) @ [Sleep 1100]"
    by (simp add: since_initializeNorwegianStock q)
  have clock: "now ?w1 = now w + 1100"
    by (simp add: initializeNorwegianStock_done [OF q])
  note IH = Cons.IH [of ?w1]
  have "spacedFrom True (since w (forEachStock (initializeNorwegianStock e) (x # rest) w) @ evs)
          = spacedFrom True evs" for evs
  proof -
    let ?tail = "since ?w1 (forEachStock (initializeNorwegianStock e) rest ?w1)"
    have "spacedFrom True (since w (forEachStock (initializeNorwegianStock e) (x # rest) w) @ evs)
            = spacedFrom True ((updateTrace e (st_symbol x) (now w) @ [Sleep 1100]) @ (?tail @ evs))"
      unfolding norwegian_step body by simp
    also have "\<dots> = spacedFrom True (?tail @ evs)"
      by (rule spacedFrom_refresh [OF q])
    also have "\<dots> = spacedFrom True evs"
      using IH by blast
    finally show ?thesis .
  qed
  moreover have "delays (since w (forEachStock (initializeNorwegianStock e) (x # rest) w))
           = replicate (length (x # rest)) 1100"
    unfolding norwegian_step body using IH by simp
  moreover have "now (forEachStock (initializeNorwegianStock e) (x # rest) w)
           = now w + 1100 * int (length (x # rest))"
    using IH clock by simp
  ultimately show ?case by blast
qed

lemma exchange_throttled:
  assumes ok: "\<forall>t s. \<exists>q. quoteAt e t s = Json q"
  shows "(\<forall>evs. spacedFrom True (since w (forEachStock (initializeExchangeStock e ex) stocks w) @ evs)
                 = spacedFrom True evs)
       \<and> delays (since w (forEachStock (initializeExchangeStock e ex) stocks w))
           = replicate (length (quoteRequests
                (since w (forEachStock (initializeExchangeStock e ex) stocks w)))) 1100
       \<and> now (forEachStock (initializeExchangeStock e ex) stocks w)
           = now w + 1100 * int (length (quoteRequests
                (since w (forEachStock (initializeExchangeStock e ex) stocks w))))"
proof (induction stocks arbitrary: w)
  case Nil
  show ?case by simp
next
  case (Cons x rest)
  let ?w1 = "initializeExchangeStock e ex x w"
  let ?loop = "forEachStock (initializeExchangeStock e ex)"
  note IH = Cons.IH [of ?w1]
  show ?case
  proof (cases "shouldUpdate (find (\<lambda>r. md_symbol r = st_symbol x) (marketData w)) (now w)")
    case False
    then have "?w1 = w"
      by (rule initializeExchangeStock_skipped)
    with IH show ?thesis by simp
  next
    case True
    from ok obtain q where "quoteAt e (now w) (st_symbol x) = Json q"
      by blast
    then have q: "finnhubResponse (quoteAt e (now w) (st_symbol x)) = Inr q"
      by simp
    have body: "since w ?w1 = updateTrace e (st_symbol x) (now w) @ [Sleep 1100]"
      by (simp add: since_initializeExchangeStock q True)
    have clock: "now ?w1 = now w + 1100"
      by (simp add: initializeExchangeStock_done [OF True q])
    have "spacedFrom True (since w (?loop (x # rest) w) @ evs) = spacedFrom True evs" for evs
    proof -
      let ?tail = "since ?w1 (?loop rest ?w1)"
      have "spacedFrom True (since w (?loop (x # rest) w) @ evs)
              = spacedFrom True ((updateTrace e (st_symbol x) (now w) @ [Sleep 1100]) @ (?tail @ evs))"
        unfolding exchange_step body by simp
      also have "\<dots> = spacedFrom True (?tail @ evs)"
        by (rule spacedFrom_refresh [OF q])
      also have "\<dots> = spacedFrom True evs"
        using IH by blast
      finally show ?thesis .
    qed
    moreover have "delays (since w (?loop (x # rest) w))
             = replicate (length (quoteRequests (since w (?loop (x # rest) w)))) 1100"
      unfolding exchange_step body using IH by simp
    moreover have "now (?loop (x # rest) w)
             = now w + 1100 * int (length (quoteRequests (since w (?loop (x # rest) w))))"
      unfolding exchange_step body using IH clock by simp
    ultimately show ?thesis by blast
  qed
qed

text \<open>
  The throttle while nothing fails. In a batch in which no quote request fails, every refresh
  is followed by its delay of 1100 ms before the next quote request goes out: the trace is
  spaced, there are as many delays of 1100 ms as quote requests, and the clock has moved by
  1100 ms for each. \<open>initializeNorwegianStocks\<close> requests every symbol of its list, so its
  N symbols take N delays; \<open>initializeExchangeData\<close> requests the stale symbols only.
\<close>

theorem refreshes_are_spaced:
  assumes "\<forall>t s. \<exists>q. quoteAt e t s = Json q"
  shows "spaced (since w (snd (initializeNorwegianStocks e w)))
   \<and> quoteRequests (since w (snd (initializeNorwegianStocks e w)))
       = map (quoteEndpoint \<circ> st_symbol) NORWEGIAN_STOCKS
   \<and> delays (since w (snd (initializeNorwegianStocks e w)))
       = replicate (length NORWEGIAN_STOCKS) 1100
   \<and> now (snd (initializeNorwegianStocks e w)) = now w + 1100 * int (length NORWEGIAN_STOCKS)
   \<and> (\<forall>ex. spaced (since w (snd (initializeExchangeData e ex w)))
          \<and> delays (since w (snd (initializeExchangeData e ex w)))
              = replicate (length (quoteRequests (since w (snd (initializeExchangeData e ex w)))))
                  1100
          \<and> now (snd (initializeExchangeData e ex w))
              = now w + 1100 * int (length (quoteRequests
                  (since w (snd (initializeExchangeData e ex w))))))"
proof -
  note N = norwegian_throttled [OF assms, of w NORWEGIAN_STOCKS]
  from N have "spacedFrom True (since w (forEachStock (initializeNorwegianStock e) NORWEGIAN_STOCKS w) @ [])
                 = spacedFrom True []"
    by blast
  then have n1: "spaced (since w (snd (initializeNorwegianStocks e w)))"
    by (simp add: spaced_def initializeNorwegianStocks_def)
  have n2: "quoteRequests (since w (snd (initializeNorwegianStocks e w)))
       = map (quoteEndpoint \<circ> st_symbol) NORWEGIAN_STOCKS"
    by (simp add: initializeNorwegianStocks_def norwegian_requests)
  from N have n3: "delays (since w (snd (initializeNorwegianStocks e w)))
       = replicate (length NORWEGIAN_STOCKS) 1100"
    and n4: "now (snd (initializeNorwegianStocks e w))
       = now w + 1100 * int (length NORWEGIAN_STOCKS)"
    by (simp_all add: initializeNorwegianStocks_def)
  have x: "spaced (since w (snd (initializeExchangeData e ex w)))
          \<and> delays (since w (snd (initializeExchangeData e ex w)))
              = replicate (length (quoteRequests (since w (snd (initializeExchangeData e ex w)))))
                  1100
          \<and> now (snd (initializeExchangeData e ex w))
              = now w + 1100 * int (length (quoteRequests
                  (since w (snd (initializeExchangeData e ex w)))))" for ex
  proof (cases "EXCHANGE_STOCKS_get ex")
    case (Own stocks)
    note X = exchange_throttled [OF assms, of w ex stocks]
    from X have "spacedFrom True (since w (forEachStock (initializeExchangeStock e ex) stocks w) @ [])
                 = spacedFrom True []"
      by blast
    with X Own show ?thesis
      by (simp add: spaced_def initializeExchangeData_def)
  next
    case Inherited
    then show ?thesis by (simp add: initializeExchangeData_def spaced_def)
  next
    case Undefined
    then show ?thesis by (simp add: initializeExchangeData_def spaced_def)
  qed
  from n1 n2 n3 n4 x show ?thesis by blast
qed

theorem refreshes_are_spaced_example:
  "(\<forall>t s. \<exists>q. quoteAt upstreamUp t s = Json q)
   \<and> spaced (since emptyWorld (snd (initializeNorwegianStocks upstreamUp emptyWorld)))
   \<and> delays (since emptyWorld (snd (initializeNorwegianStocks upstreamUp emptyWorld)))
       = [1100, 1100, 1100, 1100, 1100, 1100, 1100, 1100]
   \<and> now (snd (initializeNorwegianStocks upstreamUp emptyWorld)) = 1008800"
proof -
  have up: "\<forall>t s. \<exists>q. quoteAt upstreamUp t s = Json q"
    by (simp add: upstreamUp_def)
  have len: "length NORWEGIAN_STOCKS = 8"
    by (simp add: NORWEGIAN_STOCKS_def EXCHANGE_STOCKS_get_def EXCHANGE_STOCKS_def)
  note T = refreshes_are_spaced [OF up, of emptyWorld]
  have a: "spaced (since emptyWorld (snd (initializeNorwegianStocks upstreamUp emptyWorld)))"
    by (rule T [THEN conjunct1])
  have "delays (since emptyWorld (snd (initializeNorwegianStocks upstreamUp emptyWorld)))
       = replicate (length NORWEGIAN_STOCKS) 1100"
    by (rule T [THEN conjunct2, THEN conjunct2, THEN conjunct1])
  then have b: "delays (since emptyWorld (snd (initializeNorwegianStocks upstreamUp emptyWorld)))
       = [1100, 1100, 1100, 1100, 1100, 1100, 1100, 1100]"
    by (simp add: len numeral_eq_Suc)
  have "now (snd (initializeNorwegianStocks upstreamUp emptyWorld))
          = now emptyWorld + 1100 * int (length NORWEGIAN_STOCKS)"
    by (rule T [THEN conjunct2, THEN conjunct2, THEN conjunct2, THEN conjunct1])
  then have c: "now (snd (initializeNorwegianStocks upstreamUp emptyWorld)) = 1008800"
    by (simp add: len emptyWorld_def)
  show ?thesis
    by (intro conjI) (fact up a b c)+
qed

text \<open>
  C9. The claim: consecutive quote requests of a batch are 1100 ms apart, so N symbols take
  at least N - 1 delays. The delay sits inside the \<open>try\<close>, after the update, and a
  rejected update jumps over it: with the provider down, the eight quote requests of the
  Norwegian list go out with no delay at all and the clock does not move.
\<close>

theorem failed_refreshes_not_spaced:
  "length (quoteRequests (since emptyWorld
      (snd (initializeNorwegianStocks upstreamDown emptyWorld)))) = 8
   \<and> delays (since emptyWorld (snd (initializeNorwegianStocks upstreamDown emptyWorld))) = []
   \<and> \<not> spaced (since emptyWorld (snd (initializeNorwegianStocks upstreamDown emptyWorld)))
   \<and> now (snd (initializeNorwegianStocks upstreamDown emptyWorld)) = now emptyWorld"
  by code_simp

subsection \<open>Freshness of the cache\<close>

lemma find_append_absent: "find P xs = None \<Longrightarrow> find P (xs @ ys) = find P ys"
  by (induction xs) (auto split: if_splits)

lemma find_map_update:
  assumes "\<And>x. P (f x) = P x"
  shows "find P (map (\<lambda>x. if P x then f x else x) xs) = map_option f (find P xs)"
  using assms by (induction xs) auto

lemma shouldUpdate_fresh:
  assumes "md_lastUpdated r = Some u" and "t - u \<le> 5 * 60 * 1000"
  shows "\<not> shouldUpdate (Some r) t"
  using assms by (simp add: shouldUpdate_def)

lemma find_upsertedRows:
  "\<exists>r. find (\<lambda>r. md_symbol r = s) (upsertedRows e s q w) = Some r
       \<and> md_lastUpdated r = Some (now w)"
proof (cases "s \<in> md_symbol ` set (marketData w)")
  case True
  then obtain r0 where r0: "find (\<lambda>r. md_symbol r = s) (marketData w) = Some r0"
    by (cases "find (\<lambda>r. md_symbol r = s) (marketData w)") (auto simp: find_None_iff)
  have "find (\<lambda>r. md_symbol r = s)
          (map (\<lambda>r. if md_symbol r = s then conflictSet q (sparklineOf e q w) w r else r)
               (marketData w))
        = map_option (conflictSet q (sparklineOf e q w) w)
            (find (\<lambda>r. md_symbol r = s) (marketData w))"
    by (rule find_map_update) simp
  with True r0 show ?thesis
    by (simp add: upsertedRows_def list_ex_symbol conflictSet_def)
next
  case False
  then have "find (\<lambda>r. md_symbol r = s) (marketData w) = None"
    by (auto simp: find_None_iff)
  with False show ?thesis
    by (simp add: upsertedRows_def list_ex_symbol find_append_absent insertedRow_def)
qed

lemma initializeExchangeStock_fresh:
  assumes "find (\<lambda>r. md_symbol r = st_symbol stock) (marketData w) = Some r"
      and "md_lastUpdated r = Some u"
      and "now w - u \<le> 5 * 60 * 1000"
  shows "initializeExchangeStock e ex stock w = w"
  using assms by (simp add: initializeExchangeStock_skipped shouldUpdate_fresh)

lemma forEachStock_fresh:
  assumes "\<forall>x \<in> set stocks. \<exists>r u.
             find (\<lambda>r. md_symbol r = st_symbol x) (marketData w) = Some r
             \<and> md_lastUpdated r = Some u \<and> now w - u \<le> 5 * 60 * 1000"
  shows "forEachStock (initializeExchangeStock e ex) stocks w = w"
  using assms
proof (induction stocks)
  case Nil
  show ?case by simp
next
  case (Cons x rest)
  from Cons.prems obtain r u
    where "find (\<lambda>r. md_symbol r = st_symbol x) (marketData w) = Some r"
      and "md_lastUpdated r = Some u" and "now w - u \<le> 5 * 60 * 1000"
    by auto
  then have "initializeExchangeStock e ex x w = w"
    by (rule initializeExchangeStock_fresh)
  with Cons show ?case by simp
qed

lemma refreshed_then_fresh:
  assumes q: "finnhubResponse (quoteAt e (now w) (st_symbol stock)) = Inr q"
      and stale: "shouldUpdate (find (\<lambda>r. md_symbol r = st_symbol stock) (marketData w)) (now w)"
      and same: "find (\<lambda>r. md_symbol r = st_symbol stock) (marketData w2)
                   = find (\<lambda>r. md_symbol r = st_symbol stock)
                       (marketData (initializeExchangeStock e ex stock w))"
      and soon: "now w2 - now w \<le> 5 * 60 * 1000"
  shows "initializeExchangeStock e ex' stock w2 = w2"
proof -
  have "marketData (initializeExchangeStock e ex stock w) = upsertedRows e (st_symbol stock) q w"
    by (simp add: initializeExchangeStock_done [OF stale q])
  with same find_upsertedRows [of "st_symbol stock" e q w]
  obtain r where "find (\<lambda>r. md_symbol r = st_symbol stock) (marketData w2) = Some r"
    and "md_lastUpdated r = Some (now w)"
    by auto
  from this soon show ?thesis
    by (rule initializeExchangeStock_fresh)
qed

lemma quoteCalls_later [simp]: "quoteCalls s (later ms w) = quoteCalls s w"
  by (simp add: quoteCalls_def later_def)

lemma marketData_later [simp]: "marketData (later ms w) = marketData w"
  by (simp add: later_def)

lemma now_later [simp]: "now (later ms w) = now w + int ms"
  by (simp add: later_def)

lemma quoteCalls_initializeExchangeStock:
  "quoteCalls (st_symbol stock) (initializeExchangeStock e ex stock w)
     = quoteCalls (st_symbol stock) w
       + (if shouldUpdate (find (\<lambda>r. md_symbol r = st_symbol stock) (marketData w)) (now w)
          then 1 else 0)"
proof -
  from initializeExchangeStock_extends [of e ex stock w] obtain evs
    where t: "trace (initializeExchangeStock e ex stock w) = trace w @ evs"
    by blast
  then have "evs = since w (initializeExchangeStock e ex stock w)"
    by (simp add: since_def)
  with t show ?thesis
    by (simp add: quoteCalls_def since_initializeExchangeStock split: sum.splits)
qed

lemma twice_at_most_once:
  assumes q: "finnhubResponse (quoteAt e (now w) (st_symbol stock)) = Inr q"
      and soon: "int ms + 1100 \<le> 5 * 60 * 1000"
  shows "quoteCalls (st_symbol stock)
           (initializeExchangeStock e ex stock (later ms (initializeExchangeStock e ex stock w)))
         \<le> quoteCalls (st_symbol stock) w + 1"
proof (cases "shouldUpdate (find (\<lambda>r. md_symbol r = st_symbol stock) (marketData w)) (now w)")
  case False
  then have "initializeExchangeStock e ex stock w = w"
    by (rule initializeExchangeStock_skipped)
  then show ?thesis
    by (simp add: quoteCalls_initializeExchangeStock)
next
  case True
  let ?w1 = "initializeExchangeStock e ex stock w"
  have "now ?w1 = now w + 1100"
    by (simp add: initializeExchangeStock_done [OF True q])
  with soon have soon': "now (later ms ?w1) - now w \<le> 5 * 60 * 1000"
    by simp
  have "initializeExchangeStock e ex stock (later ms ?w1) = later ms ?w1"
    by (rule refreshed_then_fresh [OF q True _ soon']) simp
  with True show ?thesis
    by (simp add: quoteCalls_initializeExchangeStock)
qed

lemma quoteCalls_since:
  assumes "\<exists>evs. trace w' = trace w @ evs"
  shows "quoteCalls s w' = quoteCalls s w + count_list (quoteRequests (since w w')) (quoteEndpoint s)"
proof -
  from assms have "trace w' = trace w @ since w w'"
    by (auto simp: since_def)
  then have "quoteRequests (trace w') = quoteRequests (trace w) @ quoteRequests (since w w')"
    by (metis quoteRequests_append)
  then show ?thesis
    by (simp add: quoteCalls_def)
qed

lemma quoteEndpoint_inject [simp]: "quoteEndpoint a = quoteEndpoint b \<longleftrightarrow> a = b"
  by (simp add: quoteEndpoint_def)

lemma find_append_cases:
  "find P (xs @ ys) = (case find P xs of None \<Rightarrow> find P ys | Some x \<Rightarrow> Some x)"
  by (induction xs) auto

lemma find_map_other:
  assumes "\<And>x. P (f x) = P x" and "\<And>x. P x \<Longrightarrow> f x = x"
  shows "find P (map f xs) = find P xs"
  using assms by (induction xs) auto

lemma find_upsertedRows_other:
  assumes "y \<noteq> s"
  shows "find (\<lambda>r. md_symbol r = s) (upsertedRows e y q w)
           = find (\<lambda>r. md_symbol r = s) (marketData w)"
proof (cases "y \<in> md_symbol ` set (marketData w)")
  case True
  have "find (\<lambda>r. md_symbol r = s)
          (map (\<lambda>r. if md_symbol r = y then conflictSet q (sparklineOf e q w) w r else r)
               (marketData w))
        = find (\<lambda>r. md_symbol r = s) (marketData w)"
    using assms by (intro find_map_other) auto
  with True show ?thesis
    by (simp add: upsertedRows_def list_ex_symbol)
next
  case False
  with assms show ?thesis
    by (simp add: upsertedRows_def list_ex_symbol find_append_cases split: option.splits)
qed

lemma initializeExchangeStock_other:
  assumes "st_symbol y \<noteq> s"
  shows "find (\<lambda>r. md_symbol r = s) (marketData (initializeExchangeStock e ex y w))
           = find (\<lambda>r. md_symbol r = s) (marketData w)"
    and "quoteCalls s (initializeExchangeStock e ex y w) = quoteCalls s w"
proof -
  let ?stale = "shouldUpdate (find (\<lambda>r. md_symbol r = st_symbol y) (marketData w)) (now w)"
  show "find (\<lambda>r. md_symbol r = s) (marketData (initializeExchangeStock e ex y w))
           = find (\<lambda>r. md_symbol r = s) (marketData w)"
  proof (cases ?stale)
    case False
    then show ?thesis by (simp add: initializeExchangeStock_skipped)
  next
    case True
    show ?thesis
    proof (cases "finnhubResponse (quoteAt e (now w) (st_symbol y))")
      case (Inl err)
      with True show ?thesis by (simp add: initializeExchangeStock_failed)
    next
      case (Inr q)
      with True assms show ?thesis
        by (simp add: initializeExchangeStock_done find_upsertedRows_other)
    qed
  qed
  from assms show "quoteCalls s (initializeExchangeStock e ex y w) = quoteCalls s w"
    by (simp add: quoteCalls_since [OF initializeExchangeStock_extends]
        since_initializeExchangeStock split: sum.splits)
qed

lemma now_initializeExchangeStock:
  "now w \<le> now (initializeExchangeStock e ex y w)
   \<and> now (initializeExchangeStock e ex y w) \<le> now w + 1100"
  by (cases "shouldUpdate (find (\<lambda>r. md_symbol r = st_symbol y) (marketData w)) (now w)";
      cases "finnhubResponse (quoteAt e (now w) (st_symbol y))")
     (simp_all add: initializeExchangeStock_failed initializeExchangeStock_done
        initializeExchangeStock_skipped)

lemma now_forEachStock:
  "now w \<le> now (forEachStock (initializeExchangeStock e ex) stocks w)
   \<and> now (forEachStock (initializeExchangeStock e ex) stocks w)
       \<le> now w + 1100 * int (length stocks)"
proof (induction stocks arbitrary: w)
  case Nil
  show ?case by simp
next
  case (Cons y rest)
  from Cons [of "initializeExchangeStock e ex y w"] now_initializeExchangeStock [of w e ex y]
  show ?case by simp
qed

text \<open>Symbols that are not in the list are left alone by the loop.\<close>

lemma forEachStock_other:
  assumes "s \<notin> st_symbol ` set stocks"
  shows "find (\<lambda>r. md_symbol r = s)
           (marketData (forEachStock (initializeExchangeStock e ex) stocks w))
           = find (\<lambda>r. md_symbol r = s) (marketData w)
         \<and> quoteCalls s (forEachStock (initializeExchangeStock e ex) stocks w) = quoteCalls s w"
  using assms
proof (induction stocks arbitrary: w)
  case Nil
  show ?case by simp
next
  case (Cons y rest)
  then have "st_symbol y \<noteq> s" and "s \<notin> st_symbol ` set rest"
    by auto
  from initializeExchangeStock_other [OF this(1), of e ex w] Cons.IH [OF this(2)]
  show ?case by simp
qed

text \<open>A row that stays fresh for the whole batch is never requested.\<close>

lemma forEachStock_hit:
  assumes "find (\<lambda>r. md_symbol r = s) (marketData w) = Some r"
      and "md_lastUpdated r = Some u"
      and "now w + 1100 * int (length stocks) - u \<le> 5 * 60 * 1000"
  shows "quoteCalls s (forEachStock (initializeExchangeStock e ex) stocks w) = quoteCalls s w"
  using assms
proof (induction stocks arbitrary: w)
  case Nil
  show ?case by simp
next
  case (Cons y rest)
  let ?w1 = "initializeExchangeStock e ex y w"
  show ?case
  proof (cases "st_symbol y = s")
    case True
    from Cons.prems have "now w - u \<le> 5 * 60 * 1000"
      by simp
    with Cons.prems(1,2) True have same: "?w1 = w"
      by (simp add: initializeExchangeStock_fresh)
    from Cons.prems have "now w + 1100 * int (length rest) - u \<le> 5 * 60 * 1000"
      by simp
    with Cons.IH [of w] Cons.prems(1,2) same show ?thesis
      by simp
  next
    case False
    note other = initializeExchangeStock_other [OF False, of e ex w]
    from now_initializeExchangeStock [of w e ex y] Cons.prems(3)
    have "now ?w1 + 1100 * int (length rest) - u \<le> 5 * 60 * 1000"
      by simp
    with Cons.IH [of ?w1] Cons.prems(1,2) other show ?thesis
      by simp
  qed
qed

text \<open>
  One batch over distinct symbols, no request failing: a symbol is either not requested, or
  requested once and left with a row stamped during the batch.
\<close>

lemma forEachStock_once:
  assumes ok: "\<forall>t s. \<exists>q. quoteAt e t s = Json q"
      and "distinct (map st_symbol stocks)"
  shows "quoteCalls s (forEachStock (initializeExchangeStock e ex) stocks w) = quoteCalls s w
         \<or> (quoteCalls s (forEachStock (initializeExchangeStock e ex) stocks w)
               = quoteCalls s w + 1
             \<and> (\<exists>r u. find (\<lambda>r. md_symbol r = s)
                          (marketData (forEachStock (initializeExchangeStock e ex) stocks w))
                        = Some r
                      \<and> md_lastUpdated r = Some u \<and> now w \<le> u))"
  using assms(2)
proof (induction stocks arbitrary: w)
  case Nil
  show ?case by simp
next
  case (Cons y rest)
  let ?w1 = "initializeExchangeStock e ex y w"
  let ?loop = "forEachStock (initializeExchangeStock e ex)"
  from Cons.prems have d: "distinct (map st_symbol rest)" and fresh: "st_symbol y \<notin> st_symbol ` set rest"
    by auto
  show ?case
  proof (cases "st_symbol y = s")
    case True
    with fresh have "s \<notin> st_symbol ` set rest" by simp
    note rest = forEachStock_other [OF this, of e ex ?w1]
    show ?thesis
    proof (cases "shouldUpdate (find (\<lambda>r. md_symbol r = st_symbol y) (marketData w)) (now w)")
      case False
      then have "?w1 = w" by (rule initializeExchangeStock_skipped)
      with rest show ?thesis by simp
    next
      case stale: True
      from ok obtain q where "quoteAt e (now w) (st_symbol y) = Json q"
        by blast
      then have q: "finnhubResponse (quoteAt e (now w) (st_symbol y)) = Inr q"
        by simp
      have rows: "marketData ?w1 = upsertedRows e (st_symbol y) q w"
        by (simp add: initializeExchangeStock_done [OF stale q])
      from find_upsertedRows [of "st_symbol y" e q w] obtain r
        where "find (\<lambda>r. md_symbol r = s) (marketData ?w1) = Some r"
          and "md_lastUpdated r = Some (now w)"
        unfolding rows True by blast
      moreover have "quoteCalls s ?w1 = quoteCalls s w + 1"
        using stale True quoteCalls_initializeExchangeStock [of y e ex w] by simp
      ultimately show ?thesis
        using rest by auto
    qed
  next
    case False
    note other = initializeExchangeStock_other [OF False, of e ex w]
    from now_initializeExchangeStock [of w e ex y] have "now w \<le> now ?w1"
      by simp
    with Cons.IH [OF d, of ?w1] other show ?thesis
      by auto
  qed
qed

lemma catalog_distinct:
  assumes "map_of EXCHANGE_STOCKS ex = Some stocks"
  shows "distinct (map st_symbol stocks)"
proof -
  have "\<forall>(k, l) \<in> set EXCHANGE_STOCKS. distinct (map st_symbol l)"
    by (simp add: EXCHANGE_STOCKS_def mkStock_def)
  with map_of_SomeD [OF assms] show ?thesis
    by blast
qed

lemma batch_twice_at_most_once:
  assumes ok: "\<forall>t s. \<exists>q. quoteAt e t s = Json q"
      and d: "distinct (map st_symbol stocks)"
      and window: "int ms + 2200 * int (length stocks) \<le> 5 * 60 * 1000"
  shows "quoteCalls s
           (forEachStock (initializeExchangeStock e ex) stocks
             (later ms (forEachStock (initializeExchangeStock e ex) stocks w)))
         \<le> quoteCalls s w + 1"
proof -
  let ?loop = "forEachStock (initializeExchangeStock e ex) stocks"
  let ?w1 = "?loop w"
  let ?w2 = "later ms ?w1"
  from forEachStock_once [OF ok d, of s ex w]
  show ?thesis
  proof
    assume first: "quoteCalls s ?w1 = quoteCalls s w"
    from forEachStock_once [OF ok d, of s ex ?w2]
    have "quoteCalls s (?loop ?w2) \<le> quoteCalls s ?w2 + 1"
      by auto
    with first show ?thesis by simp
  next
    assume "quoteCalls s ?w1 = quoteCalls s w + 1
             \<and> (\<exists>r u. find (\<lambda>r. md_symbol r = s) (marketData ?w1) = Some r
                      \<and> md_lastUpdated r = Some u \<and> now w \<le> u)"
    then obtain r u where first: "quoteCalls s ?w1 = quoteCalls s w + 1"
      and r: "find (\<lambda>r. md_symbol r = s) (marketData ?w2) = Some r"
      and u: "md_lastUpdated r = Some u" and stamp: "now w \<le> u"
      by auto
    from now_forEachStock [of w e ex stocks] stamp window
    have "now ?w2 + 1100 * int (length stocks) - u \<le> 5 * 60 * 1000"
      by simp
    from forEachStock_hit [OF r u this, of e ex] first show ?thesis
      by simp
  qed
qed


lemma exchange_down:
  assumes down: "\<forall>t s. \<exists>err. finnhubResponse (quoteAt e t s) = Inl err"
      and absent: "\<forall>x \<in> set stocks. st_symbol x \<notin> md_symbol ` set (marketData w)"
  shows "quoteRequests (since w (forEachStock (initializeExchangeStock e ex) stocks w))
           = map (quoteEndpoint \<circ> st_symbol) stocks
         \<and> marketData (forEachStock (initializeExchangeStock e ex) stocks w) = marketData w"
  using absent
proof (induction stocks arbitrary: w)
  case Nil
  show ?case by simp
next
  case (Cons x rest)
  let ?w1 = "initializeExchangeStock e ex x w"
  from Cons.prems
  have stale: "shouldUpdate (find (\<lambda>r. md_symbol r = st_symbol x) (marketData w)) (now w)"
    by (simp add: shouldUpdate_absent)
  from down obtain err where err: "finnhubResponse (quoteAt e (now w) (st_symbol x)) = Inl err"
    by blast
  have rows: "marketData ?w1 = marketData w"
    by (simp add: initializeExchangeStock_failed [OF stale err])
  with Cons.prems have "\<forall>y \<in> set rest. st_symbol y \<notin> md_symbol ` set (marketData ?w1)"
    by simp
  from Cons.IH [OF this] rows stale err show ?case
    unfolding exchange_step by (simp add: since_initializeExchangeStock)
qed



subsection \<open>One row per symbol, across the service\<close>

lemma forEachStock_preserves:
  assumes "\<And>stock w. P w \<Longrightarrow> P (body stock w)" and "P w"
  shows "P (forEachStock body stocks w)"
  using assms(2) by (induction stocks arbitrary: w) (simp_all add: assms(1))

lemma initializeNorwegianStock_rows:
  "marketData (initializeNorwegianStock e stock w)
     = marketData (snd (updateMarketData e (st_symbol stock) w))"
  by (cases "finnhubResponse (quoteAt e (now w) (st_symbol stock))")
     (simp_all add: initializeNorwegianStock_failed initializeNorwegianStock_done
        updateMarketData_failed updateMarketData_done)

lemma initializeExchangeStock_rows:
  "marketData (initializeExchangeStock e ex stock w) = marketData w
   \<or> marketData (initializeExchangeStock e ex stock w)
       = marketData (snd (updateMarketData e (st_symbol stock) w))"
  by (cases "shouldUpdate (find (\<lambda>r. md_symbol r = st_symbol stock) (marketData w)) (now w)";
      cases "finnhubResponse (quoteAt e (now w) (st_symbol stock))")
     (simp_all add: initializeExchangeStock_failed initializeExchangeStock_done
        initializeExchangeStock_skipped updateMarketData_failed updateMarketData_done)

lemma initializeNorwegianStocks_distinct:
  assumes "distinct (map md_symbol (marketData (w :: world)))"
  shows "distinct (map md_symbol (marketData (snd (initializeNorwegianStocks e w))))"
  unfolding initializeNorwegianStocks_def snd_conv
  by (rule forEachStock_preserves [where P = "\<lambda>w :: world. distinct (map md_symbol (marketData w))"])
     (simp_all add: initializeNorwegianStock_rows updateMarketData_distinct assms)

lemma initializeExchangeData_distinct:
  assumes "distinct (map md_symbol (marketData (w :: world)))"
  shows "distinct (map md_symbol (marketData (snd (initializeExchangeData e ex w))))"
proof (cases "EXCHANGE_STOCKS_get ex")
  case (Own stocks)
  have "distinct (map md_symbol (marketData (forEachStock (initializeExchangeStock e ex) stocks w)))"
  proof (rule forEachStock_preserves [where P = "\<lambda>w :: world. distinct (map md_symbol (marketData w))"])
    fix stock and w :: world
    assume "distinct (map md_symbol (marketData w))"
    with initializeExchangeStock_rows [of e ex stock w] updateMarketData_distinct [of w e "st_symbol stock"]
    show "distinct (map md_symbol (marketData (initializeExchangeStock e ex stock w)))"
      by auto
  qed (rule assms)
  with Own show ?thesis by (simp add: initializeExchangeData_def)
next
  case Inherited
  with assms show ?thesis by (simp add: initializeExchangeData_def)
next
  case Undefined
  with assms show ?thesis by (simp add: initializeExchangeData_def)
qed

lemma getMarketDataFromDB_world [simp]: "snd (getMarketDataFromDB symbols w) = w"
  by (simp add: getMarketDataFromDB_def split: option.splits list.splits)

lemma getMarketDataByExchange_distinct:
  assumes "distinct (map md_symbol (marketData (w :: world)))"
  shows "distinct (map md_symbol (marketData (snd (getMarketDataByExchange e ex w))))"
proof -
  have "snd (getMarketDataByExchange e ex w) = w
        \<or> snd (getMarketDataByExchange e ex w) = snd (initializeExchangeData e ex w)"
    by (cases "EXCHANGE_STOCKS_get ex"; cases "initializeExchangeData e ex w";
        cases "fst (initializeExchangeData e ex w)")
       (simp_all add: getMarketDataByExchange_def)
  with assms initializeExchangeData_distinct [OF assms, of e ex] show ?thesis
    by auto
qed

lemma addWatchedAsset_rows:
  "marketData (snd (addWatchedAsset e u s f x w)) = marketData (snd (updateMarketData e s w))"
  by (cases "updateMarketData e s w"; cases "fst (updateMarketData e s w)")
     (simp_all add: addWatchedAsset_def onConflictDoUpdate_def user_symbol_not_unique
        Let_def emit_def)

lemma toggleFavorite_rows:
  "marketData (snd (toggleFavorite e u s w)) = marketData w
   \<or> marketData (snd (toggleFavorite e u s w)) = marketData (snd (updateMarketData e s w))"
  by (cases "find (watchKey u s) (watchedAssets w)")
     (simp_all add: toggleFavorite_def addWatchedAsset_rows)

lemma watchlist_calls_distinct:
  assumes "distinct (map md_symbol (marketData (w :: world)))"
  shows "distinct (map md_symbol (marketData (snd (addWatchedAsset e u s f x w))))"
    and "distinct (map md_symbol (marketData (snd (toggleFavorite e u s w))))"
    and "distinct (map md_symbol (marketData (snd (removeWatchedAsset u s w))))"
  using assms updateMarketData_distinct [OF assms, of e s] toggleFavorite_rows [of e u s w]
  by (auto simp: addWatchedAsset_rows removeWatchedAsset_def)



subsection \<open>Toggling a record that exists\<close>

text \<open>
  With a record present the flag of the pair is replaced by its negation and the update time
  is set; a second toggle brings a boolean flag back.
\<close>

lemma toggleFavorite_flips:
  assumes "find (watchKey u s) (watchedAssets w) = Some r"
  shows "find (watchKey u s) (watchedAssets (snd (toggleFavorite e u s w)))
           = Some (r\<lparr>wa_isFavorite := Some (jsNot (wa_isFavorite r)),
                     wa_updatedAt := Some (now w)\<rparr>)"
proof -
  have "find (watchKey u s)
          (map (\<lambda>x. if watchKey u s x
                     then x\<lparr>wa_isFavorite := Some (jsNot (wa_isFavorite r)),
                            wa_updatedAt := Some (now w)\<rparr>
                     else x) (watchedAssets w))
        = map_option (\<lambda>x. x\<lparr>wa_isFavorite := Some (jsNot (wa_isFavorite r)),
                               wa_updatedAt := Some (now w)\<rparr>)
            (find (watchKey u s) (watchedAssets w))"
    by (rule find_map_update) (simp add: watchKey_def)
  with assms show ?thesis
    by (simp add: toggleFavorite_present)
qed

lemma toggleFavorite_twice:
  assumes "find (watchKey u s) (watchedAssets w) = Some r"
      and "wa_isFavorite r = Some b"
  shows "map_option wa_isFavorite
           (find (watchKey u s)
             (watchedAssets (snd (toggleFavorite e u s (snd (toggleFavorite e u s w))))))
         = Some (Some b)"
proof -
  note first = toggleFavorite_flips [OF assms(1), of e]
  from toggleFavorite_flips [OF first, of e] assms(2) show ?thesis
    by (simp add: jsNot_def)
qed

end
